theory Spec2Isabelle
  imports Main
begin

section \<open>Python values at the tool boundary\<close>

text \<open>
  Every tool of \<^verbatim>\<open>poker_multiagent/tools.py\<close> returns a Python dict. The values
  that appear in these dicts are modelled by \<open>pyval\<close>. A dict is an association list in
  insertion order, as Python dicts are.

  Floating-point results are kept symbolic: a \<open>pyfloat\<close> records which float operation
  of the source produced it, and no rounding of IEEE doubles is evaluated.
\<close>

datatype pyfloat =
    FInf                      \<comment> \<open>\<^verbatim>\<open>float("inf")\<close>\<close>
  | FOfInt int                \<comment> \<open>\<^verbatim>\<open>float(n)\<close> of an integer\<close>
  | FTrueDiv int int          \<comment> \<open>\<^verbatim>\<open>a / b\<close> on two integers, \<open>b \<noteq> 0\<close>\<close>
  | FMulInt pyfloat int       \<comment> \<open>\<^verbatim>\<open>x * n\<close>, a float times an integer\<close>
  | FRound pyfloat int        \<comment> \<open>\<^verbatim>\<open>round(x, ndigits)\<close>\<close>

datatype pyval =
    PNone
  | PBool bool
  | PInt int
  | PFloat pyfloat
  | PStr string
  | PList "pyval list"
  | PTuple "pyval list"
  | PDict "(string \<times> pyval) list"
  | NpInteger int
  | NpFloating pyfloat
  | NpBool bool
  | NpArray "pyval list"       \<comment> \<open>an array of a numeric or boolean dtype\<close>
  | NpObjectArray "pyval list" \<comment> \<open>an array of dtype \<^verbatim>\<open>object\<close>\<close>
  | PEnum string pyval        \<comment> \<open>an enum member: its name and its value\<close>

text \<open>
  \<^verbatim>\<open>ndarray.tolist()\<close>. For an array of a numeric or boolean dtype the items are
  numpy scalars of that dtype, or inner arrays when the array has more dimensions: the
  result is a nested list of native Python scalars. For an array of dtype \<^verbatim>\<open>object\<close>
  the items are the stored Python objects, and \<^verbatim>\<open>tolist()\<close> returns them as they are.
\<close>

fun tolist_item :: "pyval \<Rightarrow> pyval" where
  "tolist_item (NpInteger n) = PInt n"
| "tolist_item (NpFloating f) = PFloat f"
| "tolist_item (NpBool b) = PBool b"
| "tolist_item (NpArray xs) = PList (map tolist_item xs)"
| "tolist_item v = v"

fun tolist :: "pyval \<Rightarrow> pyval" where
  "tolist (NpArray xs) = PList (map tolist_item xs)"
| "tolist (NpObjectArray xs) = PList xs"
| "tolist v = v"

text \<open>\<^verbatim>\<open>_convert_numpy_types\<close>, branch by branch in the order of the source.\<close>

fun convert_numpy_types :: "pyval \<Rightarrow> pyval" where
  "convert_numpy_types (NpInteger n) = PInt n"
| "convert_numpy_types (NpFloating f) = PFloat f"
| "convert_numpy_types (NpBool b) = PBool b"
| "convert_numpy_types (NpArray xs) = tolist (NpArray xs)"
| "convert_numpy_types (NpObjectArray xs) = tolist (NpObjectArray xs)"
| "convert_numpy_types (PEnum nm v) = PStr nm"
| "convert_numpy_types (PDict kvs) = PDict (map (\<lambda>(k, v). (k, convert_numpy_types v)) kvs)"
| "convert_numpy_types (PList xs) = PList (map convert_numpy_types xs)"
| "convert_numpy_types (PTuple xs) = PTuple (map convert_numpy_types xs)"
| "convert_numpy_types v = v"

text \<open>Dict assignment \<^verbatim>\<open>d[k] = v\<close>: an existing key keeps its place, a new one goes last.\<close>

fun dict_set :: "string \<Rightarrow> pyval \<Rightarrow> (string \<times> pyval) list \<Rightarrow> (string \<times> pyval) list" where
  "dict_set k v [] = [(k, v)]"
| "dict_set k v ((k', v') # d) = (if k = k' then (k, v) # d else (k', v') # dict_set k v d)"

text \<open>The field of a dict value; \<open>None\<close> when the value is no dict or has no such key.\<close>

fun field :: "string \<Rightarrow> pyval \<Rightarrow> pyval option" where
  "field k (PDict d) = map_of d k"
| "field k v = None"

text \<open>\<^verbatim>\<open>str(n)\<close> of an integer, as the f-strings of the source format it.\<close>

fun digits :: "nat \<Rightarrow> string" where
  "digits n = (if n < 10 then [char_of (48 + n)] else digits (n div 10) @ [char_of (48 + n mod 10)])"

declare digits.simps [simp del]

definition str_int :: "int \<Rightarrow> string" where
  "str_int i = (if i < 0 then CHR ''-'' # digits (nat (- i)) else digits (nat i))"

text \<open>
  \<^verbatim>\<open>str.upper()\<close> is Unicode-aware and is not defined here: the tool layer takes it as
  a parameter (\<open>str_upper\<close> below), and what is proved holds for every such function.
  \<open>ascii_upper\<close> is \<^verbatim>\<open>str.upper()\<close> on strings of ASCII characters only, where it maps
  \<^verbatim>\<open>a\<close> to \<^verbatim>\<open>z\<close> to \<^verbatim>\<open>A\<close> to \<^verbatim>\<open>Z\<close> and leaves the rest; it serves the concrete runs,
  whose action names are ASCII.
\<close>

definition upper_char :: "char \<Rightarrow> char" where
  "upper_char c =
     (let n = (of_char c :: nat) in if 97 \<le> n \<and> n \<le> 122 then char_of (n - 32) else c)"

definition ascii_upper :: "string \<Rightarrow> string" where
  "ascii_upper s = map upper_char s"

text \<open>\<^verbatim>\<open>repr\<close> of a list of enum member names, as an f-string prints it.\<close>

fun join_comma :: "string list \<Rightarrow> string" where
  "join_comma [] = []"
| "join_comma [s] = s"
| "join_comma (s # t # r) = s @ '', '' @ join_comma (t # r)"

definition repr_names :: "string list \<Rightarrow> string" where
  "repr_names ns = ''['' @ join_comma (map (\<lambda>n. [CHR 0x27] @ n @ [CHR 0x27]) ns) @ '']''"

section \<open>The table as the tool layer reads it\<close>

text \<open>
  Modelled from the spec: the classes \<^verbatim>\<open>Action\<close>, \<^verbatim>\<open>Stage\<close>, the player objects
  and \<^verbatim>\<open>HoldemTable\<close> of \<^verbatim>\<open>poker_multiagent/game\<close> (\<^verbatim>\<open>enums.py\<close>, \<^verbatim>\<open>env.py\<close>,
  \<^verbatim>\<open>cycle.py\<close> are not among the sources). The fields that \<^verbatim>\<open>tools.py\<close> reads keep the
  names it reads them by; the others follow the data model of the specification. The
  size variants of a raise are not fixed by the specification, so a raise carries the
  suffix of its name.
\<close>

datatype Action = FOLD | CHECK | CALL | RAISE string | ALL_IN

fun Action_name :: "Action \<Rightarrow> string" where
  "Action_name FOLD = ''FOLD''"
| "Action_name CHECK = ''CHECK''"
| "Action_name CALL = ''CALL''"
| "Action_name (RAISE v) = ''RAISE_'' @ v"
| "Action_name ALL_IN = ''ALL_IN''"

datatype Stage = PREFLOP | FLOP | TURN | RIVER | SHOWDOWN | END_HIDDEN

fun Stage_name :: "Stage \<Rightarrow> string" where
  "Stage_name PREFLOP = ''PREFLOP''"
| "Stage_name FLOP = ''FLOP''"
| "Stage_name TURN = ''TURN''"
| "Stage_name RIVER = ''RIVER''"
| "Stage_name SHOWDOWN = ''SHOWDOWN''"
| "Stage_name END_HIDDEN = ''END_HIDDEN''"

datatype Card = Card (rank: nat) (suit: nat)

record Player =
  seat :: nat
  name :: string
  stack :: int
  cards :: "Card list"
  alive_in_hand :: bool
  has_folded :: bool
  is_all_in :: bool

record PlayerCycle =
  idx :: "nat option"               \<comment> \<open>the seat to act\<close>
  alive :: "bool list"              \<comment> \<open>the seats still contesting the hand\<close>
  acted :: "bool list"              \<comment> \<open>has acted since the last raise\<close>
  raises :: "nat list"              \<comment> \<open>raises made by each seat this round\<close>

datatype Policy = RejectNoOp | AutoFold

record HoldemTable =
  initial_stacks :: int
  small_blind :: int
  big_blind :: int
  max_raises_per_player_round :: nat
  illegal_action_policy :: Policy
  deck :: "Card list"
  players :: "Player list"
  stage :: "Stage option"
  table_cards :: "Card list"
  community_pot :: int
  current_round_pot :: int
  player_pots :: "int list"
  contributions :: "int list"       \<comment> \<open>chips each seat has put into the pot this hand\<close>
  current_player :: "Player option"
  player_cycle :: "PlayerCycle option"
  legal_moves :: "Action list option"   \<comment> \<open>\<open>None\<close>: the attribute is not set\<close>
  min_call :: "int option"              \<comment> \<open>\<open>None\<close>: the attribute is not set\<close>
  winner_ix :: "nat option option"      \<comment> \<open>\<open>None\<close>: the attribute is not set\<close>
  dealer_pos :: nat
  done_flag :: bool

text \<open>A Python exception: its class and \<^verbatim>\<open>str(e)\<close>.\<close>

datatype py_exception = Exception (exc_class: string) (exc_str: string)

text \<open>
  What the tool layer takes from outside \<^verbatim>\<open>tools.py\<close>: Python's \<^verbatim>\<open>str.upper()\<close>, the
  \<^verbatim>\<open>Action\<close> enumeration, \<^verbatim>\<open>str(card)\<close>, and the operations of the engine it calls.
  The engine mutates the table in place, so an operation that raises still leaves a
  table behind: every operation returns the table after the call together with its
  outcome.
\<close>

record constructor_args =
  arg_initial_stacks :: int
  arg_small_blind :: int
  arg_big_blind :: int
  arg_render :: bool
  arg_funds_plot :: bool
  arg_max_raises_per_player_round :: nat
  arg_raise_illegal_moves :: bool

record step_result =
  observation :: pyval
  reward :: pyval
  step_done :: bool
  info :: pyval

record engine =
  str_upper :: "string \<Rightarrow> string"
  Action_members :: "Action list"
  card_str :: "Card \<Rightarrow> string"
  new_HoldemTable :: "constructor_args \<Rightarrow> py_exception + HoldemTable"
  add_player :: "string \<Rightarrow> HoldemTable \<Rightarrow> py_exception option \<times> HoldemTable"
  reset :: "HoldemTable \<Rightarrow> py_exception option \<times> HoldemTable"
  step :: "Action \<Rightarrow> HoldemTable \<Rightarrow> (py_exception + step_result) \<times> HoldemTable"
  get_environment :: "HoldemTable \<Rightarrow> py_exception option \<times> HoldemTable"
  get_legal_moves :: "HoldemTable \<Rightarrow> py_exception option \<times> HoldemTable"

text \<open>
  True division \<^verbatim>\<open>a / b\<close> of two Python integers. It raises \<^verbatim>\<open>ZeroDivisionError\<close>
  when \<open>b\<close> is 0, and \<^verbatim>\<open>OverflowError\<close> when the quotient, rounded to a double, is
  out of range: the largest double is \<open>2^1024 - 2^971\<close>, and a quotient of magnitude
  \<open>2^1024 - 2^970\<close> or more rounds beyond it.
\<close>

definition float_overflow :: "int \<Rightarrow> int \<Rightarrow> bool" where
  "float_overflow a b = ((2 ^ 1024 - 2 ^ 970) * \<bar>b\<bar> \<le> \<bar>a\<bar>)"

definition true_div :: "int \<Rightarrow> int \<Rightarrow> py_exception + pyfloat" where
  "true_div a b =
     (if b = 0 then Inl (Exception ''ZeroDivisionError'' ''division by zero'')
      else if float_overflow a b
      then Inl (Exception ''OverflowError'' ''integer division result too large for a float'')
      else Inr (FTrueDiv a b))"

text \<open>\<^verbatim>\<open>Action[name]\<close>: the member of that name, or \<^verbatim>\<open>KeyError\<close>.\<close>

definition Action_getitem :: "Action list \<Rightarrow> string \<Rightarrow> Action option" where
  "Action_getitem members nm = find (\<lambda>a. Action_name a = nm) members"

section \<open>The tool layer\<close>

text \<open>
  The module-level globals \<^verbatim>\<open>game_table\<close> and \<^verbatim>\<open>current_game_state\<close>, and the
  \<^verbatim>\<open>tool_context.state\<close> mapping the tools write to.
\<close>

record tool_state =
  game_table :: "HoldemTable option"
  current_game_state :: "(string \<times> pyval) list"
  session :: "(string \<times> pyval) list"

definition error_dict :: "string \<Rightarrow> pyval" where
  "error_dict msg = PDict [(''status'', PStr ''error''), (''message'', PStr msg)]"

definition not_initialized :: pyval where
  "not_initialized = error_dict ''Game not initialized''"

definition initialize_poker_game ::
  "engine \<Rightarrow> int \<Rightarrow> int \<Rightarrow> int \<Rightarrow> tool_state \<Rightarrow> pyval \<times> tool_state" where
  "initialize_poker_game eng stacks0 sb bb s =
     (let failed = (\<lambda>e. error_dict (''Failed to initialize game: '' @ exc_str e)) in
      case new_HoldemTable eng
             \<lparr>arg_initial_stacks = stacks0, arg_small_blind = sb, arg_big_blind = bb,
              arg_render = False, arg_funds_plot = False,
              arg_max_raises_per_player_round = 2, arg_raise_illegal_moves = False\<rparr> of
        Inl e \<Rightarrow> (failed e, s)
      | Inr t0 \<Rightarrow>
          (case add_player eng ''Player1'' t0 of
             (Some e, t1) \<Rightarrow> (failed e, s\<lparr>game_table := Some t1\<rparr>)
           | (None, t1) \<Rightarrow>
               (case add_player eng ''Player2'' t1 of
                  (Some e, t2) \<Rightarrow> (failed e, s\<lparr>game_table := Some t2\<rparr>)
                | (None, t2) \<Rightarrow>
                    (case reset eng t2 of
                       (Some e, t3) \<Rightarrow> (failed e, s\<lparr>game_table := Some t3\<rparr>)
                     | (None, t3) \<Rightarrow>
                         (let cgs = [(''game_initialized'', PBool True),
                                     (''num_players'', PInt 2),
                                     (''initial_stacks'', PInt stacks0),
                                     (''small_blind'', PInt sb),
                                     (''big_blind'', PInt bb),
                                     (''current_hand'', PInt 1)]
                          in (PDict [(''status'', PStr ''success''),
                                     (''message'', PStr ''Poker game initialized with 2 players''),
                                     (''game_state'', PDict cgs)],
                              \<lparr>game_table = Some t3,
                               current_game_state = cgs,
                               session = dict_set ''game_table_initialized'' (PBool True)
                                           (dict_set ''game_state'' (PDict cgs) (session s))\<rparr>))))))"

text \<open>The entry of one player in the \<^verbatim>\<open>players\<close> list of \<^verbatim>\<open>get_game_state\<close>.\<close>

definition player_info :: "engine \<Rightarrow> HoldemTable \<Rightarrow> nat \<Rightarrow> Player \<Rightarrow> pyval" where
  "player_info eng t i player =
     PDict [(''seat'', convert_numpy_types (PInt (int (seat player)))),
            (''name'', PStr (name player)),
            (''stack'', convert_numpy_types (PInt (stack player))),
            (''cards'', PList (map (\<lambda>c. PStr (card_str eng c)) (cards player))),
            (''current_bet'',
               (if i < length (player_pots t)
                then convert_numpy_types (PInt (player_pots t ! i)) else PInt 0)),
            (''is_active'',
               (case player_cycle t of
                  Some pc \<Rightarrow> convert_numpy_types (PBool (i < length (alive pc) \<and> alive pc ! i))
                | None \<Rightarrow> PBool True))]"

definition opt_val :: "('a \<Rightarrow> pyval) \<Rightarrow> 'a option \<Rightarrow> pyval" where
  "opt_val f x = (case x of None \<Rightarrow> PNone | Some v \<Rightarrow> f v)"

definition game_state_dict :: "engine \<Rightarrow> HoldemTable \<Rightarrow> pyval" where
  "game_state_dict eng t =
     PDict [(''status'', PStr ''success''),
            (''stage'', PStr (case stage t of Some st \<Rightarrow> Stage_name st | None \<Rightarrow> ''UNKNOWN'')),
            (''community_cards'', PList (map (\<lambda>c. PStr (card_str eng c)) (table_cards t))),
            (''community_pot'', convert_numpy_types (PInt (community_pot t))),
            (''current_round_pot'', convert_numpy_types (PInt (current_round_pot t))),
            (''current_player_seat'',
               opt_val (\<lambda>p. convert_numpy_types (PInt (int (seat p)))) (current_player t)),
            (''current_player_name'', opt_val (\<lambda>p. PStr (name p)) (current_player t)),
            (''players'', PList (map (\<lambda>(i, p). player_info eng t i p) (enumerate 0 (players t)))),
            (''legal_actions'',
               (case legal_moves t of
                  Some ms \<Rightarrow> PList (map (\<lambda>a. PStr (Action_name a)) ms)
                | None \<Rightarrow> PList [])),
            (''done'', PBool (done_flag t)),
            (''winner'',
               (case winner_ix t of
                  Some w \<Rightarrow> convert_numpy_types (opt_val (\<lambda>i. PInt (int i)) w)
                | None \<Rightarrow> PNone)),
            (''min_call'',
               convert_numpy_types (PInt (case min_call t of Some c \<Rightarrow> c | None \<Rightarrow> 0))),
            (''dealer_position'', convert_numpy_types (PInt (int (dealer_pos t))))]"

definition get_game_state :: "engine \<Rightarrow> tool_state \<Rightarrow> pyval \<times> tool_state" where
  "get_game_state eng s =
     (case game_table s of
        None \<Rightarrow> (not_initialized, s)
      | Some t \<Rightarrow>
          (case get_environment eng t of
             (Some e, t') \<Rightarrow>
               (error_dict (''Error getting game state: '' @ exc_str e), s\<lparr>game_table := Some t'\<rparr>)
           | (None, t') \<Rightarrow>
               (let st = convert_numpy_types (game_state_dict eng t')
                in (st, s\<lparr>game_table := Some t',
                          session := dict_set ''current_game_state'' st (session s)\<rparr>))))"

definition process_player_action :: "engine \<Rightarrow> string \<Rightarrow> tool_state \<Rightarrow> pyval \<times> tool_state" where
  "process_player_action eng action_name s =
     (case game_table s of
        None \<Rightarrow> (not_initialized, s)
      | Some t \<Rightarrow>
          (let invalid = error_dict (''Invalid action: '' @ action_name @ ''. Valid actions are: ''
                                      @ repr_names (map Action_name (Action_members eng)))
           in case Action_getitem (Action_members eng) (str_upper eng action_name) of
                None \<Rightarrow> (invalid, s)
              | Some action \<Rightarrow>
                  (case step eng action t of
                     (Inl e, t') \<Rightarrow>
                       (if exc_class e = ''KeyError'' then invalid
                        else error_dict (''Error processing action: '' @ exc_str e),
                        s\<lparr>game_table := Some t'\<rparr>)
                   | (Inr r, t') \<Rightarrow>
                       (let (updated_state, s') = get_game_state eng (s\<lparr>game_table := Some t'\<rparr>);
                            result = convert_numpy_types
                              (PDict [(''status'', PStr ''success''),
                                      (''action_taken'', PStr action_name),
                                      (''reward'', convert_numpy_types (reward r)),
                                      (''done'', PBool (step_done r)),
                                      (''game_state'', updated_state),
                                      (''info'', convert_numpy_types (info r))])
                        in (result, s'\<lparr>session := dict_set ''last_action'' result (session s')\<rparr>)))))"

text \<open>
  The loop of \<^verbatim>\<open>check_game_over\<close> over \<^verbatim>\<open>enumerate(game_table.players)\<close>: it appends
  one entry per player and overwrites \<^verbatim>\<open>result["winner"]\<close> at every player with chips.
\<close>

definition stack_entry :: "string \<Rightarrow> Player \<Rightarrow> pyval" where
  "stack_entry key player =
     PDict [(key, PStr (name player)),
            (''seat'', convert_numpy_types (PInt (int (seat player)))),
            (''final_stack'', convert_numpy_types (PInt (stack player)))]"

fun game_over_loop :: "Player list \<Rightarrow> pyval \<times> pyval list \<Rightarrow> pyval \<times> pyval list" where
  "game_over_loop [] acc = acc"
| "game_over_loop (player # rest) (winner, final_stacks) =
     game_over_loop rest
       (if stack player > 0 then stack_entry ''name'' player else winner,
        final_stacks @ [stack_entry ''player'' player])"

definition check_game_over :: "engine \<Rightarrow> tool_state \<Rightarrow> pyval \<times> tool_state" where
  "check_game_over eng s =
     (case game_table s of
        None \<Rightarrow> (not_initialized, s)
      | Some t \<Rightarrow>
          (let (winner, final_stacks) =
                 (if done_flag t then game_over_loop (players t) (PNone, []) else (PNone, []))
           in (convert_numpy_types
                 (PDict [(''status'', PStr ''success''),
                         (''game_over'', PBool (done_flag t)),
                         (''winner'', winner),
                         (''final_stacks'', PList final_stacks)]), s)))"

definition get_player_hand :: "engine \<Rightarrow> int \<Rightarrow> tool_state \<Rightarrow> pyval \<times> tool_state" where
  "get_player_hand eng player_seat s =
     (case game_table s of
        None \<Rightarrow> (not_initialized, s)
      | Some t \<Rightarrow>
          (if player_seat < 0 \<or> player_seat \<ge> int (length (players t))
           then (error_dict (''Invalid player seat: '' @ str_int player_seat), s)
           else (let player = players t ! nat player_seat
                 in (convert_numpy_types
                       (PDict [(''status'', PStr ''success''),
                               (''player_name'', PStr (name player)),
                               (''seat'', convert_numpy_types (PInt player_seat)),
                               (''hand_cards'', PList (map (\<lambda>c. PStr (card_str eng c)) (cards player))),
                               (''stack'', convert_numpy_types (PInt (stack player)))]), s))))"

definition get_legal_actions :: "engine \<Rightarrow> tool_state \<Rightarrow> pyval \<times> tool_state" where
  "get_legal_actions eng s =
     (case game_table s of
        None \<Rightarrow> (not_initialized, s)
      | Some t \<Rightarrow>
          (let failed = (\<lambda>msg. error_dict (''Error getting legal actions: '' @ msg)) in
           case get_legal_moves eng t of
             (Some e, t') \<Rightarrow> (failed (exc_str e), s\<lparr>game_table := Some t'\<rparr>)
           | (None, t') \<Rightarrow>
               (let s' = s\<lparr>game_table := Some t'\<rparr> in
                case legal_moves t' of
                  None \<Rightarrow> (failed ([CHR 0x27] @ ''HoldemTable'' @ [CHR 0x27]
                                     @ '' object has no attribute ''
                                     @ [CHR 0x27] @ ''legal_moves'' @ [CHR 0x27]), s')
                | Some ms \<Rightarrow>
                    (case current_player t' of
                       Some p \<Rightarrow>
                         (if seat p < length (player_pots t')
                          then (convert_numpy_types
                                  (PDict [(''status'', PStr ''success''),
                                          (''legal_actions'', PList (map (\<lambda>a. PStr (Action_name a)) ms)),
                                          (''current_player'', PStr (name p)),
                                          (''current_player_seat'', convert_numpy_types (PInt (int (seat p)))),
                                          (''min_call'',
                                             convert_numpy_types
                                               (PInt (case min_call t' of Some c \<Rightarrow> c | None \<Rightarrow> 0))),
                                          (''current_bet'',
                                             convert_numpy_types (PInt (player_pots t' ! seat p)))]), s')
                          else (failed ''list index out of range'', s'))
                     | None \<Rightarrow>
                         (convert_numpy_types
                            (PDict [(''status'', PStr ''success''),
                                    (''legal_actions'', PList (map (\<lambda>a. PStr (Action_name a)) ms)),
                                    (''current_player'', PNone),
                                    (''current_player_seat'', PNone),
                                    (''min_call'',
                                       convert_numpy_types
                                         (PInt (case min_call t' of Some c \<Rightarrow> c | None \<Rightarrow> 0))),
                                    (''current_bet'', PInt 0)]), s')))))"

definition calculate_pot_odds :: "engine \<Rightarrow> tool_state \<Rightarrow> pyval \<times> tool_state" where
  "calculate_pot_odds eng s =
     (case game_table s of
        None \<Rightarrow> (not_initialized, s)
      | Some t \<Rightarrow>
          (let total_pot = community_pot t + current_round_pot t;
               call_amount = (case min_call t of Some c \<Rightarrow> c | None \<Rightarrow> 0);
               failed = (\<lambda>e. error_dict (''Error calculating pot odds: '' @ exc_str e));
               success = (\<lambda>pot_odds pot_odds_percentage.
                 convert_numpy_types
                   (PDict [(''status'', PStr ''success''),
                           (''total_pot'', convert_numpy_types (PInt total_pot)),
                           (''call_amount'', convert_numpy_types (PInt call_amount)),
                           (''pot_odds'', convert_numpy_types (PFloat pot_odds)),
                           (''pot_odds_percentage'', PFloat (FRound pot_odds_percentage 2)),
                           (''current_player'', opt_val (\<lambda>p. PStr (name p)) (current_player t))]))
           in if call_amount > 0
              then (case true_div total_pot call_amount of
                      Inl e \<Rightarrow> (failed e, s)
                    | Inr pot_odds \<Rightarrow>
                        (case true_div call_amount (total_pot + call_amount) of
                           Inl e \<Rightarrow> (failed e, s)
                         | Inr q \<Rightarrow> (success pot_odds (FMulInt q 100), s)))
              else (success FInf (FOfInt 0), s)))"

section \<open>The engine, from the specification\<close>

text \<open>
  Modelled from the spec: the engine behind the tool layer (\<^verbatim>\<open>HoldemTable\<close> with its
  deck, pot ledger, player cycle and stage machine; \<^verbatim>\<open>game/env.py\<close> and
  \<^verbatim>\<open>game/cycle.py\<close> are not among the sources). The definitions follow sections 3 and 4
  of the specification. What the specification leaves to the implementation is a
  parameter, collected in \<open>rules\<close>: the members of the action enumeration, the chips a
  raise variant commits, the hand evaluator, the order a shuffle produces, the string
  form of a card, and the policy the constructor flag selects (with them travels
  \<^verbatim>\<open>str.upper()\<close>, which the tool layer applies to action names). Choices the
  specification asks to state:
  \<^item> \<^verbatim>\<open>FOLD\<close> is always legal; \<^verbatim>\<open>ALL_IN\<close> is legal when the stack is positive;
  \<^item> the amount of a raise is the number of chips the action moves from the stack;
  \<^item> the small blind sits right after the dealer, the big blind after it, and the seat
    after the big blind acts first; later rounds start after the dealer;
  \<^item> the reward of a step is the net chip change of the acting seat;
  \<^item> a hand that is done has no seat to act: stepping it fails with
    \<^verbatim>\<open>NoActivePlayer\<close> before any action is looked at.

  The specification names the constructor flag \<^verbatim>\<open>raise_illegal_moves\<close> and the two
  policies for an illegal action, but not which value of the flag selects which policy:
  the pairing is the parameter \<open>flag_policy\<close>.
\<close>

record rules =
  upper_case :: "string \<Rightarrow> string"
  flag_policy :: "bool \<Rightarrow> Policy"
  members :: "Action list"
  raise_amount :: "string \<Rightarrow> HoldemTable \<Rightarrow> int"
  evaluate :: "Card list \<Rightarrow> nat"
  shuffled :: "Card list"
  show_card :: "Card \<Rightarrow> string"

definition DeckExhausted :: py_exception where
  "DeckExhausted = Exception ''DeckExhausted'' ''deck exhausted''"

definition InsufficientStack :: py_exception where
  "InsufficientStack = Exception ''InsufficientStack'' ''amount exceeds stack''"

definition IllegalAction :: py_exception where
  "IllegalAction = Exception ''IllegalAction'' ''action is not a legal move''"

definition NoActivePlayer :: py_exception where
  "NoActivePlayer = Exception ''NoActivePlayer'' ''no active player''"

subsection \<open>Deck\<close>

text \<open>
  Modelled from the spec: \<^verbatim>\<open>Deck.deal(n)\<close> (section 4.1), which removes and returns
  \<open>n\<close> cards from the front and fails with \<^verbatim>\<open>DeckExhausted\<close> if fewer remain.
\<close>

definition deal :: "nat \<Rightarrow> Card list \<Rightarrow> py_exception + (Card list \<times> Card list)" where
  "deal n d = (if length d < n then Inl DeckExhausted else Inr (take n d, drop n d))"

subsection \<open>PlayerCycle\<close>

text \<open>
  Modelled from the spec: the operations of \<^verbatim>\<open>PlayerCycle\<close> (section 4.4).
  A seat is contesting while its \<open>alive\<close> bit is set; it can act when it is contesting
  and not all-in. \<^verbatim>\<open>next_to_act\<close> is the next seat that can act in table order after
  the current one. \<^verbatim>\<open>round_is_complete\<close> holds when every seat that can act has
  matched the highest commitment of the round and has acted since the last raise, or
  when at most one seat can act. \<^verbatim>\<open>record_action\<close> marks the seat as having acted;
  a raise first resets the flags of the others and counts for the seat.
  \<^verbatim>\<open>advance_dealer\<close> moves the dealer one seat on, modulo the seat count.
\<close>

definition seats :: "HoldemTable \<Rightarrow> nat list" where
  "seats t = [0..<length (players t)]"

definition cycle :: "HoldemTable \<Rightarrow> PlayerCycle" where
  "cycle t = (case player_cycle t of
                Some pc \<Rightarrow> pc
              | None \<Rightarrow> \<lparr>idx = None, alive = [], acted = [], raises = []\<rparr>)"

definition contesting :: "HoldemTable \<Rightarrow> nat \<Rightarrow> bool" where
  "contesting t i = (i < length (alive (cycle t)) \<and> alive (cycle t) ! i)"

definition can_act :: "HoldemTable \<Rightarrow> nat \<Rightarrow> bool" where
  "can_act t i = (contesting t i \<and> i < length (players t) \<and> \<not> is_all_in (players t ! i))"

definition has_acted :: "HoldemTable \<Rightarrow> nat \<Rightarrow> bool" where
  "has_acted t i = (i < length (acted (cycle t)) \<and> acted (cycle t) ! i)"

definition raises_of :: "HoldemTable \<Rightarrow> nat \<Rightarrow> nat" where
  "raises_of t i = (if i < length (raises (cycle t)) then raises (cycle t) ! i else 0)"

definition pot_of :: "HoldemTable \<Rightarrow> nat \<Rightarrow> int" where
  "pot_of t i = (if i < length (player_pots t) then player_pots t ! i else 0)"

definition highest_commitment :: "HoldemTable \<Rightarrow> int" where
  "highest_commitment t = foldr max (map (pot_of t) (filter (contesting t) (seats t))) 0"

text \<open>The seats after seat \<open>i\<close> in table order, once around the table.\<close>

definition seats_after :: "nat \<Rightarrow> nat \<Rightarrow> nat list" where
  "seats_after n i = map (\<lambda>k. (i + k) mod n) [1..<n + 1]"

definition next_to_act :: "HoldemTable \<Rightarrow> nat \<Rightarrow> nat option" where
  "next_to_act t i = find (can_act t) (seats_after (length (players t)) i)"

definition round_is_complete :: "HoldemTable \<Rightarrow> bool" where
  "round_is_complete t =
     (list_all (\<lambda>i. pot_of t i = highest_commitment t \<and> has_acted t i) (filter (can_act t) (seats t))
      \<or> length (filter (can_act t) (seats t)) \<le> 1)"

fun is_raise :: "Action \<Rightarrow> bool" where
  "is_raise (RAISE v) = True"
| "is_raise a = False"

definition record_action :: "nat \<Rightarrow> Action \<Rightarrow> HoldemTable \<Rightarrow> HoldemTable" where
  "record_action i a t =
     (let pc = cycle t in
      t\<lparr>player_cycle := Some (pc
          \<lparr>acted := (if is_raise a then map (\<lambda>b. False) (acted pc) else acted pc)[i := True],
           raises := (if is_raise a then (raises pc)[i := raises_of t i + 1] else raises pc)\<rparr>)\<rparr>)"

definition advance_dealer :: "HoldemTable \<Rightarrow> HoldemTable" where
  "advance_dealer t = t\<lparr>dealer_pos := (dealer_pos t + 1) mod length (players t)\<rparr>"

subsection \<open>PotLedger\<close>

text \<open>
  Modelled from the spec: the operations of \<^verbatim>\<open>PotLedger\<close> (section 4.3).
  \<^verbatim>\<open>commit(seat, amount)\<close> moves chips from the stack of the seat into its pot of the
  round and fails with \<^verbatim>\<open>InsufficientStack\<close> if the amount exceeds the stack;
  \<^verbatim>\<open>min_call(seat)\<close> is the gap between the commitment of the seat and the largest
  commitment among the contesting seats; \<^verbatim>\<open>collapse_round()\<close> moves the pot of the
  round into the community pot and clears the pots of the seats.
\<close>

definition commit :: "nat \<Rightarrow> int \<Rightarrow> HoldemTable \<Rightarrow> py_exception + HoldemTable" where
  "commit i amount t =
     (if length (players t) \<le> i \<or> length (player_pots t) \<le> i \<or> length (contributions t) \<le> i
      then Inl (Exception ''IndexError'' ''list index out of range'')
      else if amount > stack (players t ! i) then Inl InsufficientStack
      else Inr (t\<lparr>players := (players t)[i := (players t ! i)
                                 \<lparr>stack := stack (players t ! i) - amount,
                                  is_all_in := (stack (players t ! i) - amount = 0)\<rparr>],
                  player_pots := (player_pots t)[i := player_pots t ! i + amount],
                  contributions := (contributions t)[i := contributions t ! i + amount],
                  current_round_pot := current_round_pot t + amount\<rparr>))"

definition min_call_for :: "HoldemTable \<Rightarrow> nat \<Rightarrow> int" where
  "min_call_for t i = highest_commitment t - pot_of t i"

definition collapse_round :: "HoldemTable \<Rightarrow> HoldemTable" where
  "collapse_round t =
     t\<lparr>community_pot := community_pot t + current_round_pot t,
       current_round_pot := 0,
       player_pots := map (\<lambda>x. 0) (player_pots t)\<rparr>"

text \<open>Paying out: \<open>award\<close> moves chips from the community pot to a stack.\<close>

definition award :: "nat \<Rightarrow> int \<Rightarrow> HoldemTable \<Rightarrow> HoldemTable" where
  "award i amount t =
     (if i < length (players t)
      then t\<lparr>players := (players t)[i := (players t ! i)\<lparr>stack := stack (players t ! i) + amount\<rparr>],
             community_pot := community_pot t - amount\<rparr>
      else t)"

definition contribution_of :: "HoldemTable \<Rightarrow> nat \<Rightarrow> int" where
  "contribution_of t i = (if i < length (contributions t) then contributions t ! i else 0)"

text \<open>
  \<open>side_pots\<close>: one sub-pot per tier of commitment among the contesting seats, lowest
  first. A sub-pot holds what every seat put in between the previous tier and this one,
  and is open to the contesting seats that put in at least this tier.
\<close>

fun tier_pots :: "HoldemTable \<Rightarrow> int \<Rightarrow> int list \<Rightarrow> (int \<times> nat list) list" where
  "tier_pots t prev [] = []"
| "tier_pots t prev (l # ls) =
     (sum_list (map (\<lambda>i. min (contribution_of t i) l - min (contribution_of t i) prev) (seats t)),
      filter (\<lambda>i. contesting t i \<and> contribution_of t i \<ge> l) (seats t))
     # tier_pots t l ls"

definition tiers :: "HoldemTable \<Rightarrow> int list" where
  "tiers t = sort (remdups (map (contribution_of t) (filter (contesting t) (seats t))))"

definition side_pots :: "HoldemTable \<Rightarrow> (int \<times> nat list) list" where
  "side_pots t = tier_pots t 0 (tiers t)"

subsection \<open>Showdown\<close>

text \<open>
  Modelled from the spec: the showdown of section 4.6. The hand evaluator (section 4.2)
  is the parameter \<open>evaluate\<close>, applied to the hole cards of a seat and the community
  cards.
\<close>

definition hand_rank :: "rules \<Rightarrow> HoldemTable \<Rightarrow> nat \<Rightarrow> nat" where
  "hand_rank R t i = evaluate R (cards (players t ! i) @ table_cards t)"

text \<open>
  The winners of a sub-pot: the eligible seats of the best rank, in dealer-relative
  order. The pot is split evenly and the first of them takes the remainder.
\<close>

definition winners :: "rules \<Rightarrow> HoldemTable \<Rightarrow> nat list \<Rightarrow> nat list" where
  "winners R t eligible =
     (let best = foldr max (map (hand_rank R t) eligible) 0
      in filter (\<lambda>i. i \<in> set eligible \<and> hand_rank R t i = best)
           (seats_after (length (players t)) (dealer_pos t)))"

definition pay_pot :: "rules \<Rightarrow> int \<times> nat list \<Rightarrow> HoldemTable \<Rightarrow> HoldemTable" where
  "pay_pot R pot t =
     (case winners R t (snd pot) of
        [] \<Rightarrow> t
      | w # ws \<Rightarrow>
          award w (fst pot mod int (length (w # ws)))
            (fold (\<lambda>i. award i (fst pot div int (length (w # ws)))) (w # ws) t))"

text \<open>Chips a seat put in above the highest tier of the contesting seats go back to it.\<close>

definition refund_excess :: "int list \<Rightarrow> HoldemTable \<Rightarrow> HoldemTable" where
  "refund_excess ls t =
     fold (\<lambda>i. award i (max 0 (contribution_of t i - foldr max ls 0))) (seats t) t"

definition showdown :: "rules \<Rightarrow> HoldemTable \<Rightarrow> HoldemTable" where
  "showdown R t =
     (let t1 = fold (pay_pot R) (side_pots t) t;
          t2 = refund_excess (tiers t) t1;
          first = (case winners R t (filter (contesting t) (seats t)) of [] \<Rightarrow> None | w # ws \<Rightarrow> Some w)
      in t2\<lparr>stage := Some SHOWDOWN, done_flag := True, winner_ix := Some first,
            player_cycle := Some ((cycle t2)\<lparr>idx := None\<rparr>)\<rparr>)"

text \<open>One contesting seat is left: it takes the pot, and no hole cards are shown.\<close>

definition end_hand_early :: "HoldemTable \<Rightarrow> HoldemTable" where
  "end_hand_early t =
     (let t1 = collapse_round t;
          sole = (case filter (contesting t) (seats t) of [] \<Rightarrow> None | w # ws \<Rightarrow> Some w);
          t2 = (case sole of None \<Rightarrow> t1 | Some w \<Rightarrow> award w (community_pot t1) t1)
      in t2\<lparr>stage := Some END_HIDDEN, done_flag := True, winner_ix := Some sole,
            player_cycle := Some ((cycle t2)\<lparr>idx := None\<rparr>)\<rparr>)"

subsection \<open>HoldemTable\<close>

text \<open>
  Modelled from the spec: \<^verbatim>\<open>legal_moves(seat)\<close> of section 4.6. \<^verbatim>\<open>CHECK\<close> is
  legal iff the call is 0; \<^verbatim>\<open>CALL\<close> iff the call is positive and the stack covers it;
  a raise iff the seat has raised fewer times this round than the configured maximum and
  the stack covers its amount. The legal moves are listed in the order of the
  enumeration.
\<close>

fun legal :: "rules \<Rightarrow> HoldemTable \<Rightarrow> nat \<Rightarrow> Action \<Rightarrow> bool" where
  "legal R t i FOLD = True"
| "legal R t i CHECK = (min_call_for t i = 0)"
| "legal R t i CALL = (0 < min_call_for t i \<and> min_call_for t i \<le> stack (players t ! i))"
| "legal R t i (RAISE v) =
     (raises_of t i < max_raises_per_player_round t \<and> raise_amount R v t \<le> stack (players t ! i))"
| "legal R t i ALL_IN = (0 < stack (players t ! i))"

definition legal_moves_for :: "rules \<Rightarrow> HoldemTable \<Rightarrow> nat \<Rightarrow> Action list" where
  "legal_moves_for R t i = filter (legal R t i) (members R)"

text \<open>
  The attributes the tool layer reads (\<^verbatim>\<open>current_player\<close>, \<^verbatim>\<open>legal_moves\<close>,
  \<^verbatim>\<open>min_call\<close>), computed from the seat to act.
\<close>

definition refresh :: "rules \<Rightarrow> HoldemTable \<Rightarrow> HoldemTable" where
  "refresh R t =
     (case (if done_flag t then None else idx (cycle t)) of
        None \<Rightarrow> t\<lparr>current_player := None, legal_moves := Some [], min_call := Some 0\<rparr>
      | Some i \<Rightarrow>
          (if i < length (players t)
           then t\<lparr>current_player := Some (players t ! i),
                  legal_moves := Some (legal_moves_for R t i),
                  min_call := Some (min_call_for t i)\<rparr>
           else t\<lparr>current_player := None, legal_moves := Some [], min_call := Some 0\<rparr>))"

definition fold_seat :: "nat \<Rightarrow> HoldemTable \<Rightarrow> HoldemTable" where
  "fold_seat i t =
     t\<lparr>players := (players t)[i := (players t ! i)\<lparr>alive_in_hand := False, has_folded := True\<rparr>],
       player_cycle := Some ((cycle t)\<lparr>alive := (alive (cycle t))[i := False]\<rparr>)\<rparr>"

definition apply_action :: "rules \<Rightarrow> nat \<Rightarrow> Action \<Rightarrow> HoldemTable \<Rightarrow> py_exception + HoldemTable" where
  "apply_action R i a t =
     (case a of
        FOLD \<Rightarrow> Inr (fold_seat i t)
      | CHECK \<Rightarrow> Inr t
      | CALL \<Rightarrow> commit i (min_call_for t i) t
      | RAISE v \<Rightarrow> commit i (raise_amount R v t) t
      | ALL_IN \<Rightarrow> commit i (stack (players t ! i)) t)"

definition start_round :: "HoldemTable \<Rightarrow> HoldemTable" where
  "start_round t =
     t\<lparr>player_cycle := Some ((cycle t)
         \<lparr>idx := next_to_act t (dealer_pos t),
          acted := map (\<lambda>b. False) (acted (cycle t)),
          raises := map (\<lambda>n. 0) (raises (cycle t))\<rparr>)\<rparr>"

text \<open>The stages still ahead of a stage, each with the community cards dealt on entering it.\<close>

fun later_stages :: "Stage \<Rightarrow> (Stage \<times> nat) list" where
  "later_stages PREFLOP = [(FLOP, 3), (TURN, 1), (RIVER, 1), (SHOWDOWN, 0)]"
| "later_stages FLOP = [(TURN, 1), (RIVER, 1), (SHOWDOWN, 0)]"
| "later_stages TURN = [(RIVER, 1), (SHOWDOWN, 0)]"
| "later_stages RIVER = [(SHOWDOWN, 0)]"
| "later_stages st = []"

text \<open>
  A completed round: the pot is collapsed and the next stage entered. When the new
  round is complete from the start (no seat is left to bet against), the remaining
  community cards follow without betting, up to the showdown.
\<close>

fun advance :: "rules \<Rightarrow> (Stage \<times> nat) list \<Rightarrow> HoldemTable \<Rightarrow> py_exception + HoldemTable" where
  "advance R [] t = Inr t"
| "advance R ((st, n) # rest) t =
     (case deal n (deck t) of
        Inl e \<Rightarrow> Inl e
      | Inr (cs, d) \<Rightarrow>
          (let t1 = start_round
                      ((collapse_round t)\<lparr>stage := Some st, table_cards := table_cards t @ cs, deck := d\<rparr>)
           in if st = SHOWDOWN then Inr (showdown R t1)
              else if round_is_complete t1 then advance R rest t1
              else Inr t1))"

definition after_action :: "rules \<Rightarrow> nat \<Rightarrow> HoldemTable \<Rightarrow> py_exception + HoldemTable" where
  "after_action R i t =
     (if length (filter (contesting t) (seats t)) \<le> 1 then Inr (end_hand_early t)
      else if round_is_complete t
           then (case stage t of None \<Rightarrow> Inr t | Some st \<Rightarrow> advance R (later_stages st) t)
           else Inr (t\<lparr>player_cycle := Some ((cycle t)\<lparr>idx := next_to_act t i\<rparr>)\<rparr>))"

text \<open>
  Modelled from the spec: \<^verbatim>\<open>step(action)\<close> of section 4.6, with the errors of
  section 7. Stepping a finished hand fails with \<^verbatim>\<open>NoActivePlayer\<close>. An action that is
  not among the legal moves of the seat to act fails with \<^verbatim>\<open>IllegalAction\<close> under the
  reject policy and is replaced by a fold under the other. Then the chip effect of the
  action is applied, the action is recorded, and the hand ends, the round advances or
  the turn passes. A failing step leaves the table as it was.
\<close>

definition HoldemTable_step ::
  "rules \<Rightarrow> Action \<Rightarrow> HoldemTable \<Rightarrow> (py_exception + step_result) \<times> HoldemTable" where
  "HoldemTable_step R a t =
     (case (if done_flag t then None else idx (cycle t)) of
        None \<Rightarrow> (Inl NoActivePlayer, t)
      | Some i \<Rightarrow>
          (if length (players t) \<le> i then (Inl NoActivePlayer, t)
           else if a \<notin> set (legal_moves_for R t i) \<and> illegal_action_policy t = RejectNoOp
           then (Inl IllegalAction, t)
           else (let a' = (if a \<in> set (legal_moves_for R t i) then a else FOLD) in
                 case apply_action R i a' t of
                   Inl e \<Rightarrow> (Inl (if e = InsufficientStack then IllegalAction else e), t)
                 | Inr t1 \<Rightarrow>
                     (case after_action R i (record_action i a' t1) of
                        Inl e \<Rightarrow> (Inl e, t)
                      | Inr t2 \<Rightarrow>
                          (let t3 = refresh R t2
                           in (Inr \<lparr>observation = PNone,
                                    reward = PInt (stack (players t3 ! i) - stack (players t ! i)),
                                    step_done = done_flag t3,
                                    info = PDict []\<rparr>, t3))))))"

text \<open>
  Modelled from the spec: \<^verbatim>\<open>reset()\<close> of section 4.6, which clears the state of the
  hand, takes a freshly shuffled deck, advances the dealer, posts the blinds by forced
  commits, deals two hole cards per seat, sets the stage to PREFLOP and computes the
  legal moves and the seat to act.
\<close>

fun deal_hole_cards :: "nat list \<Rightarrow> HoldemTable \<Rightarrow> py_exception + HoldemTable" where
  "deal_hole_cards [] t = Inr t"
| "deal_hole_cards (i # rest) t =
     (case deal 2 (deck t) of
        Inl e \<Rightarrow> Inl e
      | Inr (cs, d) \<Rightarrow>
          deal_hole_cards rest
            (t\<lparr>deck := d, players := (players t)[i := (players t ! i)\<lparr>cards := cs\<rparr>]\<rparr>))"

definition HoldemTable_reset :: "rules \<Rightarrow> HoldemTable \<Rightarrow> py_exception option \<times> HoldemTable" where
  "HoldemTable_reset R t =
     (let n = length (players t) in
      if n = 0 then (Some NoActivePlayer, t)
      else
        (let t0 = advance_dealer
                    (t\<lparr>deck := shuffled R, stage := Some PREFLOP, table_cards := [],
                       community_pot := 0, current_round_pot := 0,
                       player_pots := replicate n 0, contributions := replicate n 0,
                       done_flag := False, winner_ix := Some None,
                       players := map (\<lambda>p. p\<lparr>cards := [], alive_in_hand := (0 < stack p),
                                               has_folded := False, is_all_in := False\<rparr>) (players t),
                       player_cycle := Some \<lparr>idx = None, alive = map (\<lambda>p. 0 < stack p) (players t),
                                              acted = replicate n False, raises = replicate n 0\<rparr>\<rparr>);
             sb = (dealer_pos t0 + 1) mod n;
             bb = (dealer_pos t0 + 2) mod n
         in case commit sb (small_blind t0) t0 of
              Inl e \<Rightarrow> (Some e, t)
            | Inr t1 \<Rightarrow>
                (case commit bb (big_blind t1) t1 of
                   Inl e \<Rightarrow> (Some e, t)
                 | Inr t2 \<Rightarrow>
                     (case deal_hole_cards (seats t2) t2 of
                        Inl e \<Rightarrow> (Some e, t)
                      | Inr t3 \<Rightarrow>
                          (None, refresh R
                             (t3\<lparr>player_cycle := Some ((cycle t3)\<lparr>idx := next_to_act t3 bb\<rparr>)\<rparr>))))))"

text \<open>
  Modelled from the spec: the constructor (\<^verbatim>\<open>new_table\<close> of section 6, with the
  arguments \<^verbatim>\<open>tools.py\<close> passes) and \<^verbatim>\<open>add_player\<close>, which seats a player with the
  starting stack on the next free seat.
\<close>

definition HoldemTable_init :: "rules \<Rightarrow> constructor_args \<Rightarrow> py_exception + HoldemTable" where
  "HoldemTable_init R a =
     Inr \<lparr>initial_stacks = arg_initial_stacks a,
          small_blind = arg_small_blind a,
          big_blind = arg_big_blind a,
          max_raises_per_player_round = arg_max_raises_per_player_round a,
          illegal_action_policy = flag_policy R (arg_raise_illegal_moves a),
          deck = [], players = [], stage = None, table_cards = [],
          community_pot = 0, current_round_pot = 0, player_pots = [], contributions = [],
          current_player = None,
          player_cycle = Some \<lparr>idx = None, alive = [], acted = [], raises = []\<rparr>,
          legal_moves = None, min_call = None, winner_ix = None,
          dealer_pos = 0, done_flag = False\<rparr>"

definition HoldemTable_add_player :: "string \<Rightarrow> HoldemTable \<Rightarrow> py_exception option \<times> HoldemTable" where
  "HoldemTable_add_player nm t =
     (None, t\<lparr>players := players t @
                 [\<lparr>seat = length (players t), name = nm, stack = initial_stacks t, cards = [],
                   alive_in_hand = False, has_folded = False, is_all_in = False\<rparr>]\<rparr>)"

text \<open>
  Modelled from the spec: the engine as the tool layer calls it. The two private
  operations \<^verbatim>\<open>_get_environment\<close> and \<^verbatim>\<open>_get_legal_moves\<close>, which the specification
  does not describe, recompute the attributes the tool layer reads.
\<close>

definition spec_engine :: "rules \<Rightarrow> engine" where
  "spec_engine R =
     \<lparr>str_upper = upper_case R,
      Action_members = members R,
      card_str = show_card R,
      new_HoldemTable = HoldemTable_init R,
      add_player = HoldemTable_add_player,
      reset = HoldemTable_reset R,
      step = HoldemTable_step R,
      get_environment = (\<lambda>t. (None, refresh R t)),
      get_legal_moves = (\<lambda>t. (None, refresh R t))\<rparr>"

text \<open>
  A concrete rule set for running the model: \<^verbatim>\<open>str.upper()\<close> on ASCII names, the flag
  \<^verbatim>\<open>raise_illegal_moves=False\<close> paired with the reject policy, two raise sizes, the rank
  of the highest card as a (coarse) evaluator, and a fixed deck order.
\<close>

definition demo_deck :: "Card list" where
  "demo_deck = [Card 14 0, Card 13 0, Card 2 1, Card 7 2, Card 10 3, Card 9 3, Card 8 1,
                Card 3 2, Card 4 0, Card 5 1, Card 6 2, Card 11 3]"

definition demo_rules :: rules where
  "demo_rules =
     \<lparr>upper_case = ascii_upper,
      flag_policy = (\<lambda>b. if b then AutoFold else RejectNoOp),
      members = [FOLD, CHECK, CALL, RAISE ''3BB'', RAISE ''POT'', ALL_IN],
      raise_amount = (\<lambda>v t. if v = ''3BB'' then 3 * big_blind t
                              else community_pot t + current_round_pot t),
      evaluate = (\<lambda>cs. foldr max (map rank cs) 0),
      shuffled = demo_deck,
      show_card = (\<lambda>c. digits (rank c) @ [''SHDC'' ! (suit c mod 4)])\<rparr>"

definition empty_state :: tool_state where
  "empty_state = \<lparr>game_table = None, current_game_state = [], session = []\<rparr>"

definition state_of :: "HoldemTable \<Rightarrow> tool_state" where
  "state_of t = \<lparr>game_table = Some t, current_game_state = [], session = []\<rparr>"

definition demo_engine :: engine where
  "demo_engine = spec_engine demo_rules"

text \<open>The table right after \<^verbatim>\<open>initialize_poker_game(100, 1, 2)\<close> on the demo engine.\<close>

definition demo_table :: HoldemTable where
  "demo_table =
     \<lparr>initial_stacks = 100, small_blind = 1, big_blind = 2,
      max_raises_per_player_round = 2, illegal_action_policy = RejectNoOp,
      deck = [Card 10 3, Card 9 3, Card 8 1, Card 3 2, Card 4 0, Card 5 1, Card 6 2, Card 11 3],
      players =
        [\<lparr>seat = 0, name = ''Player1'', stack = 99, cards = [Card 14 0, Card 13 0],
          alive_in_hand = True, has_folded = False, is_all_in = False\<rparr>,
         \<lparr>seat = 1, name = ''Player2'', stack = 98, cards = [Card 2 1, Card 7 2],
          alive_in_hand = True, has_folded = False, is_all_in = False\<rparr>],
      stage = Some PREFLOP, table_cards = [], community_pot = 0,
      current_round_pot = 3, player_pots = [1, 2], contributions = [1, 2],
      current_player =
        Some \<lparr>seat = 0, name = ''Player1'', stack = 99, cards = [Card 14 0, Card 13 0],
              alive_in_hand = True, has_folded = False, is_all_in = False\<rparr>,
      player_cycle =
        Some \<lparr>idx = Some 0, alive = [True, True], acted = [False, False], raises = [0, 0]\<rparr>,
      legal_moves = Some [FOLD, CALL, RAISE ''3BB'', RAISE ''POT'', ALL_IN],
      min_call = Some 1, winner_ix = Some None, dealer_pos = 1, done_flag = False\<rparr>"

text \<open>
  The table after the actions \<^verbatim>\<open>call\<close>, \<^verbatim>\<open>check\<close>, \<^verbatim>\<open>raise_3bb\<close> and
  \<^verbatim>\<open>fold\<close>: the hand is over, seat 0 has taken the pot.
\<close>

definition demo_table_folded :: HoldemTable where
  "demo_table_folded =
     \<lparr>initial_stacks = 100, small_blind = 1, big_blind = 2,
      max_raises_per_player_round = 2, illegal_action_policy = RejectNoOp,
      deck = [Card 3 2, Card 4 0, Card 5 1, Card 6 2, Card 11 3],
      players =
        [\<lparr>seat = 0, name = ''Player1'', stack = 102, cards = [Card 14 0, Card 13 0],
          alive_in_hand = True, has_folded = False, is_all_in = False\<rparr>,
         \<lparr>seat = 1, name = ''Player2'', stack = 98, cards = [Card 2 1, Card 7 2],
          alive_in_hand = False, has_folded = True, is_all_in = False\<rparr>],
      stage = Some END_HIDDEN, table_cards = [Card 10 3, Card 9 3, Card 8 1],
      community_pot = 0, current_round_pot = 0, player_pots = [0, 0],
      contributions = [8, 2], current_player = None,
      player_cycle =
        Some \<lparr>idx = None, alive = [True, False], acted = [True, True], raises = [1, 0]\<rparr>,
      legal_moves = Some [], min_call = Some 0, winner_ix = Some (Some 0),
      dealer_pos = 1, done_flag = True\<rparr>"

definition demo_started :: tool_state where
  "demo_started = snd (initialize_poker_game demo_engine 100 1 2 empty_state)"

text \<open>
  The table right after \<^verbatim>\<open>initialize_poker_game(100, -1, 0)\<close> on the demo engine: the
  small blind of -1 chips is posted as it is given, the pot of the round is -1 and the
  seat to act has 1 chip to call.
\<close>

definition demo_table_negative_blind :: HoldemTable where
  "demo_table_negative_blind =
     \<lparr>initial_stacks = 100, small_blind = - 1, big_blind = 0,
      max_raises_per_player_round = 2, illegal_action_policy = RejectNoOp,
      deck = [Card 10 3, Card 9 3, Card 8 1, Card 3 2, Card 4 0, Card 5 1, Card 6 2, Card 11 3],
      players =
        [\<lparr>seat = 0, name = ''Player1'', stack = 101, cards = [Card 14 0, Card 13 0],
          alive_in_hand = True, has_folded = False, is_all_in = False\<rparr>,
         \<lparr>seat = 1, name = ''Player2'', stack = 100, cards = [Card 2 1, Card 7 2],
          alive_in_hand = True, has_folded = False, is_all_in = False\<rparr>],
      stage = Some PREFLOP, table_cards = [], community_pot = 0,
      current_round_pot = - 1, player_pots = [- 1, 0], contributions = [- 1, 0],
      current_player =
        Some \<lparr>seat = 0, name = ''Player1'', stack = 101, cards = [Card 14 0, Card 13 0],
              alive_in_hand = True, has_folded = False, is_all_in = False\<rparr>,
      player_cycle =
        Some \<lparr>idx = Some 0, alive = [True, True], acted = [False, False], raises = [0, 0]\<rparr>,
      legal_moves = Some [FOLD, CALL, RAISE ''3BB'', RAISE ''POT'', ALL_IN],
      min_call = Some 1, winner_ix = Some None, dealer_pos = 1, done_flag = False\<rparr>"

definition run_actions :: "engine \<Rightarrow> string list \<Rightarrow> tool_state \<Rightarrow> tool_state" where
  "run_actions eng names s = fold (\<lambda>nm st. snd (process_player_action eng nm st)) names s"

text \<open>
  A three-seat table on the river, for the scenarios of section 8 of the specification:
  given are the stacks, what each seat has put into the pot, which seats still contest,
  and the hole cards.
\<close>

definition river_table :: "int list \<Rightarrow> int list \<Rightarrow> bool list \<Rightarrow> Card list list \<Rightarrow> HoldemTable" where
  "river_table stacks contribs al hole =
     \<lparr>initial_stacks = 100, small_blind = 1, big_blind = 2,
      max_raises_per_player_round = 2, illegal_action_policy = RejectNoOp,
      deck = [],
      players = map (\<lambda>i. \<lparr>seat = i, name = ''Seat'', stack = stacks ! i, cards = hole ! i,
                              alive_in_hand = al ! i, has_folded = (\<not> al ! i),
                              is_all_in = (stacks ! i = 0)\<rparr>) [0, 1, 2],
      stage = Some RIVER, table_cards = [Card 2 0, Card 3 1, Card 4 2, Card 5 3, Card 7 0],
      community_pot = sum_list contribs, current_round_pot = 0,
      player_pots = [0, 0, 0], contributions = contribs,
      current_player = None,
      player_cycle = Some \<lparr>idx = None, alive = al, acted = [True, True, True], raises = [0, 0, 0]\<rparr>,
      legal_moves = Some [], min_call = Some 0, winner_ix = Some None,
      dealer_pos = 2, done_flag = False\<rparr>"

text \<open>The chips on the table: all stacks, the community pot and the pot of the round.\<close>

definition total_chips :: "HoldemTable \<Rightarrow> int" where
  "total_chips t = sum_list (map stack (players t)) + community_pot t + current_round_pot t"

text \<open>A sequence of \<^verbatim>\<open>step\<close> calls on one table, whatever each call answers.\<close>

definition play :: "rules \<Rightarrow> Action list \<Rightarrow> HoldemTable \<Rightarrow> HoldemTable" where
  "play R acts t = fold (\<lambda>a u. snd (HoldemTable_step R a u)) acts t"

section \<open>No game initialized\<close>

text \<open>
  C9. Every tool operation on the table (\<^verbatim>\<open>get_game_state\<close>,
  \<^verbatim>\<open>process_player_action\<close>, \<^verbatim>\<open>check_game_over\<close>, \<^verbatim>\<open>get_player_hand\<close>,
  \<^verbatim>\<open>get_legal_actions\<close>, \<^verbatim>\<open>calculate_pot_odds\<close>), called while no game is
  initialized (the global table is \<^verbatim>\<open>None\<close>), returns the dict with status
  \<^verbatim>\<open>"error"\<close> and message \<^verbatim>\<open>"Game not initialized"\<close>, whatever the engine is, and
  leaves the globals and the session as they were: no engine operation takes part.
\<close>

theorem no_game_not_initialized:
  "get_game_state eng (s\<lparr>game_table := None\<rparr>)
     = (PDict [(''status'', PStr ''error''), (''message'', PStr ''Game not initialized'')],
        s\<lparr>game_table := None\<rparr>)
   \<and> process_player_action eng action_name (s\<lparr>game_table := None\<rparr>)
     = (PDict [(''status'', PStr ''error''), (''message'', PStr ''Game not initialized'')],
        s\<lparr>game_table := None\<rparr>)
   \<and> check_game_over eng (s\<lparr>game_table := None\<rparr>)
     = (PDict [(''status'', PStr ''error''), (''message'', PStr ''Game not initialized'')],
        s\<lparr>game_table := None\<rparr>)
   \<and> get_player_hand eng player_seat (s\<lparr>game_table := None\<rparr>)
     = (PDict [(''status'', PStr ''error''), (''message'', PStr ''Game not initialized'')],
        s\<lparr>game_table := None\<rparr>)
   \<and> get_legal_actions eng (s\<lparr>game_table := None\<rparr>)
     = (PDict [(''status'', PStr ''error''), (''message'', PStr ''Game not initialized'')],
        s\<lparr>game_table := None\<rparr>)
   \<and> calculate_pot_odds eng (s\<lparr>game_table := None\<rparr>)
     = (PDict [(''status'', PStr ''error''), (''message'', PStr ''Game not initialized'')],
        s\<lparr>game_table := None\<rparr>)"
  by (simp add: get_game_state_def process_player_action_def check_game_over_def
      get_player_hand_def get_legal_actions_def calculate_pot_odds_def
      not_initialized_def error_dict_def)

text \<open>The demo tables are what the tools produce on the demo engine.\<close>

lemma demo_table_reached:
  "game_table (snd (initialize_poker_game demo_engine 100 1 2 empty_state)) = Some demo_table"
  by code_simp

lemma demo_table_folded_reached:
  "game_table (run_actions demo_engine [''call'', ''check'', ''raise_3bb'', ''fold''] (state_of demo_table))
     = Some demo_table_folded"
  by code_simp

text \<open>
  The model agrees with the scenarios of section 8 of the specification. Side pots:
  seat 0 is all-in for 10 chips with the best hand, seats 1 and 2 have committed 50
  each; seat 0 wins the tier of 30 chips only, the other 80 go to the better of seats 1
  and 2. Split pot: a pot of 30 chips from three seats, seat 0 has folded, seats 1 and 2
  tie; each receives 15.
\<close>

lemma side_pot_scenario:
  "side_pots (river_table [0, 50, 50] [10, 50, 50] [True, True, True]
      [[Card 14 0, Card 13 0], [Card 12 0, Card 9 1], [Card 11 0, Card 9 2]])
     = [(30, [0, 1, 2]), (80, [1, 2])]
   \<and> map stack (players (showdown demo_rules
         (river_table [0, 50, 50] [10, 50, 50] [True, True, True]
            [[Card 14 0, Card 13 0], [Card 12 0, Card 9 1], [Card 11 0, Card 9 2]])))
     = [30, 130, 50]"
  by code_simp

lemma split_pot_scenario:
  "map stack (players (showdown demo_rules
      (river_table [90, 90, 90] [10, 10, 10] [False, True, True]
         [[Card 14 0, Card 13 0], [Card 12 0, Card 9 1], [Card 12 1, Card 9 2]])))
     = [90, 105, 105]"
  by code_simp

section \<open>Action names\<close>

lemma join_comma_contains:
  "n \<in> set ns \<Longrightarrow> \<exists>pre post. join_comma ns = pre @ n @ post"
proof (induction ns rule: join_comma.induct)
  case 1
  then show ?case by simp
next
  case (2 s)
  then have "join_comma [s] = [] @ n @ []" by simp
  then show ?case by blast
next
  case (3 s t r)
  show ?case
  proof (cases "n = s")
    case True
    then have "join_comma (s # t # r) = [] @ n @ ('', '' @ join_comma (t # r))" by simp
    then show ?thesis by blast
  next
    case False
    with "3.prems" have "n \<in> set (t # r)" by simp
    from "3.IH" [OF this] obtain pre post where "join_comma (t # r) = pre @ n @ post"
      by blast
    then have "join_comma (s # t # r) = (s @ '', '' @ pre) @ n @ post" by simp
    then show ?thesis by blast
  qed
qed

lemma repr_names_lists_every_name:
  assumes "a \<in> set members0"
  shows "\<exists>pre post. repr_names (map Action_name members0)
           = ''['' @ pre @ [CHR 0x27] @ Action_name a @ [CHR 0x27] @ post @ '']''"
proof -
  have "[CHR 0x27] @ Action_name a @ [CHR 0x27]
          \<in> set (map (\<lambda>n. [CHR 0x27] @ n @ [CHR 0x27]) (map Action_name members0))"
    using assms by auto
  from join_comma_contains [OF this] obtain pre post where
    "join_comma (map (\<lambda>n. [CHR 0x27] @ n @ [CHR 0x27]) (map Action_name members0))
       = pre @ ([CHR 0x27] @ Action_name a @ [CHR 0x27]) @ post"
    by blast
  then have "repr_names (map Action_name members0)
               = ''['' @ pre @ [CHR 0x27] @ Action_name a @ [CHR 0x27] @ post @ '']''"
    by (simp add: repr_names_def)
  then show ?thesis by blast
qed

text \<open>
  C5. With a game initialized, for every string \<open>action_name\<close> whose upper-cased form
  (by \<^verbatim>\<open>str.upper()\<close>, whatever function that is) names no member of the \<^verbatim>\<open>Action\<close>
  enumeration, \<^verbatim>\<open>process_player_action\<close> returns the dict with status \<^verbatim>\<open>"error"\<close>
  and the message \<^verbatim>\<open>Invalid action: <action_name>. Valid actions are: [...]\<close>, in which
  the name of every member of the enumeration stands between quotes; it returns
  normally, the globals, the session and the table are as before, and the result does
  not depend on \<^verbatim>\<open>step\<close>: the engine is never stepped.
\<close>

theorem invalid_action_name_rejected:
  assumes "game_table s = Some t"
    and "Action_getitem (Action_members eng) (str_upper eng action_name) = None"
  shows "process_player_action eng action_name s
           = (PDict [(''status'', PStr ''error''),
                     (''message'', PStr (''Invalid action: '' @ action_name @ ''. Valid actions are: ''
                                          @ repr_names (map Action_name (Action_members eng))))], s)
         \<and> (\<forall>a \<in> set (Action_members eng). \<exists>pre post.
               repr_names (map Action_name (Action_members eng))
                 = ''['' @ pre @ [CHR 0x27] @ Action_name a @ [CHR 0x27] @ post @ '']'')
         \<and> process_player_action (eng\<lparr>step := f\<rparr>) action_name s = process_player_action eng action_name s"
proof (intro conjI ballI)
  show "process_player_action eng action_name s
           = (PDict [(''status'', PStr ''error''),
                     (''message'', PStr (''Invalid action: '' @ action_name @ ''. Valid actions are: ''
                                          @ repr_names (map Action_name (Action_members eng))))], s)"
    using assms by (simp add: process_player_action_def error_dict_def)
  show "process_player_action (eng\<lparr>step := f\<rparr>) action_name s = process_player_action eng action_name s"
    using assms by (simp add: process_player_action_def error_dict_def)
next
  fix a
  assume "a \<in> set (Action_members eng)"
  then show "\<exists>pre post. repr_names (map Action_name (Action_members eng))
                 = ''['' @ pre @ [CHR 0x27] @ Action_name a @ [CHR 0x27] @ post @ '']''"
    by (rule repr_names_lists_every_name)
qed

theorem invalid_action_name_rejected_witness:
  "process_player_action demo_engine ''bogus'' (state_of demo_table)
     = (PDict [(''status'', PStr ''error''),
               (''message'',
                  PStr (''Invalid action: bogus. Valid actions are: [''
                        @ [CHR 0x27] @ ''FOLD'' @ [CHR 0x27] @ '', ''
                        @ [CHR 0x27] @ ''CHECK'' @ [CHR 0x27] @ '', ''
                        @ [CHR 0x27] @ ''CALL'' @ [CHR 0x27] @ '', ''
                        @ [CHR 0x27] @ ''RAISE_3BB'' @ [CHR 0x27] @ '', ''
                        @ [CHR 0x27] @ ''RAISE_POT'' @ [CHR 0x27] @ '', ''
                        @ [CHR 0x27] @ ''ALL_IN'' @ [CHR 0x27] @ '']''))],
        state_of demo_table)
   \<and> process_player_action (demo_engine\<lparr>step := (\<lambda>a t. (Inl NoActivePlayer, t))\<rparr>) ''bogus''
        (state_of demo_table)
     = process_player_action demo_engine ''bogus'' (state_of demo_table)"
proof -
  have h1: "game_table (state_of demo_table) = Some demo_table"
    by (simp add: state_of_def)
  have h2: "Action_getitem (Action_members demo_engine) (str_upper demo_engine ''bogus'') = None"
    by code_simp
  have lit: "''Invalid action: '' @ ''bogus'' @ ''. Valid actions are: ''
               @ repr_names (map Action_name (Action_members demo_engine))
             = ''Invalid action: bogus. Valid actions are: [''
                        @ [CHR 0x27] @ ''FOLD'' @ [CHR 0x27] @ '', ''
                        @ [CHR 0x27] @ ''CHECK'' @ [CHR 0x27] @ '', ''
                        @ [CHR 0x27] @ ''CALL'' @ [CHR 0x27] @ '', ''
                        @ [CHR 0x27] @ ''RAISE_3BB'' @ [CHR 0x27] @ '', ''
                        @ [CHR 0x27] @ ''RAISE_POT'' @ [CHR 0x27] @ '', ''
                        @ [CHR 0x27] @ ''ALL_IN'' @ [CHR 0x27] @ '']''"
    by code_simp
  note th = invalid_action_name_rejected [OF h1 h2, of "\<lambda>a t. (Inl NoActivePlayer, t)"]
  from conjunct1 [OF th] have
    "process_player_action demo_engine ''bogus'' (state_of demo_table)
       = (PDict [(''status'', PStr ''error''),
                 (''message'',
                    PStr (''Invalid action: bogus. Valid actions are: [''
                        @ [CHR 0x27] @ ''FOLD'' @ [CHR 0x27] @ '', ''
                        @ [CHR 0x27] @ ''CHECK'' @ [CHR 0x27] @ '', ''
                        @ [CHR 0x27] @ ''CALL'' @ [CHR 0x27] @ '', ''
                        @ [CHR 0x27] @ ''RAISE_3BB'' @ [CHR 0x27] @ '', ''
                        @ [CHR 0x27] @ ''RAISE_POT'' @ [CHR 0x27] @ '', ''
                        @ [CHR 0x27] @ ''ALL_IN'' @ [CHR 0x27] @ '']''))],
          state_of demo_table)"
    by (simp only: lit)
  moreover note conjunct2 [OF conjunct2 [OF th]]
  ultimately show ?thesis by (rule conjI)
qed

section \<open>Game over\<close>

lemma convert_stack_entry: "convert_numpy_types (stack_entry k p) = stack_entry k p"
  by (simp add: stack_entry_def)

lemma game_over_loop_eq:
  "game_over_loop ps (w, fs) =
     ((case filter (\<lambda>p. stack p > 0) ps of [] \<Rightarrow> w | q # qs \<Rightarrow> stack_entry ''name'' (last (q # qs))),
      fs @ map (stack_entry ''player'') ps)"
proof (induction ps arbitrary: w fs)
  case Nil
  then show ?case by simp
next
  case (Cons p ps)
  show ?case
    by (simp add: Cons.IH split: list.splits)
qed

lemma last_filter_index:
  assumes "i < length ps" and "P (ps ! i)" and "\<forall>j. i < j \<and> j < length ps \<longrightarrow> \<not> P (ps ! j)"
  shows "filter P ps \<noteq> [] \<and> last (filter P ps) = ps ! i"
  using assms
proof (induction ps arbitrary: i rule: rev_induct)
  case Nil
  then show ?case by simp
next
  case (snoc x xs)
  show ?case
  proof (cases "i = length xs")
    case True
    with snoc.prems show ?thesis by simp
  next
    case False
    with snoc.prems have i: "i < length xs" by simp
    from snoc.prems i have nx: "\<not> P x"
      by (metis length_append_singleton lessI nth_append_length)
    have "P (xs ! i)" using snoc.prems(2) i by (simp add: nth_append)
    moreover have "\<forall>j. i < j \<and> j < length xs \<longrightarrow> \<not> P (xs ! j)"
      using snoc.prems(3) by (metis length_append_singleton less_Suc_eq nth_append)
    ultimately have "filter P xs \<noteq> [] \<and> last (filter P xs) = xs ! i"
      using snoc.IH i by blast
    then show ?thesis using nx i by (simp add: nth_append)
  qed
qed

lemma check_game_over_parts:
  assumes "game_table s = Some t"
  shows "snd (check_game_over eng s) = s"
    and "field ''status'' (fst (check_game_over eng s)) = Some (PStr ''success'')"
    and "field ''game_over'' (fst (check_game_over eng s)) = Some (PBool (done_flag t))"
    and "\<not> done_flag t \<Longrightarrow>
           field ''winner'' (fst (check_game_over eng s)) = Some PNone
         \<and> field ''final_stacks'' (fst (check_game_over eng s)) = Some (PList [])"
    and "done_flag t \<Longrightarrow>
           field ''final_stacks'' (fst (check_game_over eng s))
             = Some (PList (map (stack_entry ''player'') (players t)))"
    and "done_flag t \<Longrightarrow> i < length (players t) \<Longrightarrow> 0 < stack (players t ! i) \<Longrightarrow>
           (\<forall>j. i < j \<and> j < length (players t) \<longrightarrow> stack (players t ! j) \<le> 0) \<Longrightarrow>
           field ''winner'' (fst (check_game_over eng s)) = Some (stack_entry ''name'' (players t ! i))"
    and "done_flag t \<Longrightarrow> (\<forall>p \<in> set (players t). stack p \<le> 0) \<Longrightarrow>
           field ''winner'' (fst (check_game_over eng s)) = Some PNone"
proof -
  show "snd (check_game_over eng s) = s"
    using assms by (simp add: check_game_over_def split: prod.splits)
  show "field ''status'' (fst (check_game_over eng s)) = Some (PStr ''success'')"
    using assms by (simp add: check_game_over_def split: prod.splits)
  show "field ''game_over'' (fst (check_game_over eng s)) = Some (PBool (done_flag t))"
    using assms by (simp add: check_game_over_def split: prod.splits)
  show "\<not> done_flag t \<Longrightarrow>
           field ''winner'' (fst (check_game_over eng s)) = Some PNone
         \<and> field ''final_stacks'' (fst (check_game_over eng s)) = Some (PList [])"
    using assms by (simp add: check_game_over_def)
  show "done_flag t \<Longrightarrow>
           field ''final_stacks'' (fst (check_game_over eng s))
             = Some (PList (map (stack_entry ''player'') (players t)))"
    using assms by (simp add: check_game_over_def game_over_loop_eq convert_stack_entry)
  show "field ''winner'' (fst (check_game_over eng s)) = Some (stack_entry ''name'' (players t ! i))"
    if d: "done_flag t" and i: "i < length (players t)" and pos: "0 < stack (players t ! i)"
      and later: "\<forall>j. i < j \<and> j < length (players t) \<longrightarrow> stack (players t ! j) \<le> 0"
  proof -
    have "\<forall>j. i < j \<and> j < length (players t) \<longrightarrow> \<not> 0 < stack (players t ! j)"
      using later by auto
    from last_filter_index [of i "players t" "\<lambda>p. 0 < stack p", OF i pos this]
    have "filter (\<lambda>p. 0 < stack p) (players t) \<noteq> []"
      and "last (filter (\<lambda>p. 0 < stack p) (players t)) = players t ! i" by auto
    then show ?thesis
      using assms d
      by (auto simp add: check_game_over_def game_over_loop_eq convert_stack_entry split: list.splits)
  qed
  show "field ''winner'' (fst (check_game_over eng s)) = Some PNone"
    if d: "done_flag t" and none: "\<forall>p \<in> set (players t). stack p \<le> 0"
  proof -
    have "filter (\<lambda>p. 0 < stack p) (players t) = []"
      using none by (auto simp add: filter_empty_conv)
    then show ?thesis
      using assms d by (simp add: check_game_over_def game_over_loop_eq)
  qed
qed

lemma stack_entry_eq:
  "stack_entry key p
     = PDict [(key, PStr (name p)), (''seat'', PInt (int (seat p))), (''final_stack'', PInt (stack p))]"
  by (simp add: stack_entry_def)

text \<open>
  C8. \<^verbatim>\<open>check_game_over\<close> on an initialized game changes nothing and reports
  \<^verbatim>\<open>game_over = done\<close>. When \<^verbatim>\<open>done\<close> is true, \<^verbatim>\<open>final_stacks\<close> lists for every
  player, in the order of the player list, the dict of its name (key \<^verbatim>\<open>player\<close>), seat
  and final stack, and \<^verbatim>\<open>winner\<close> is the dict of name, seat and final stack of the
  player of the largest index among those with a positive stack (the last one seated
  when several hold chips, \<^verbatim>\<open>None\<close> when nobody does). When \<^verbatim>\<open>done\<close> is false,
  \<^verbatim>\<open>winner\<close> is \<^verbatim>\<open>None\<close> and \<^verbatim>\<open>final_stacks\<close> is empty.
\<close>

theorem check_game_over_winner:
  assumes "game_table s = Some t"
  shows "snd (check_game_over eng s) = s
       \<and> field ''status'' (fst (check_game_over eng s)) = Some (PStr ''success'')
       \<and> field ''game_over'' (fst (check_game_over eng s)) = Some (PBool (done_flag t))
       \<and> (\<not> done_flag t \<longrightarrow>
            field ''winner'' (fst (check_game_over eng s)) = Some PNone
          \<and> field ''final_stacks'' (fst (check_game_over eng s)) = Some (PList []))
       \<and> (done_flag t \<longrightarrow>
            field ''final_stacks'' (fst (check_game_over eng s))
              = Some (PList (map (\<lambda>p. PDict [(''player'', PStr (name p)),
                                               (''seat'', PInt (int (seat p))),
                                               (''final_stack'', PInt (stack p))]) (players t)))
          \<and> (\<forall>i. i < length (players t) \<and> 0 < stack (players t ! i)
                  \<and> (\<forall>j. i < j \<and> j < length (players t) \<longrightarrow> stack (players t ! j) \<le> 0)
                \<longrightarrow> field ''winner'' (fst (check_game_over eng s))
                      = Some (PDict [(''name'', PStr (name (players t ! i))),
                                     (''seat'', PInt (int (seat (players t ! i)))),
                                     (''final_stack'', PInt (stack (players t ! i)))]))
          \<and> ((\<forall>p \<in> set (players t). stack p \<le> 0)
                \<longrightarrow> field ''winner'' (fst (check_game_over eng s)) = Some PNone))"
  using check_game_over_parts [OF assms, where eng = eng, unfolded stack_entry_eq] by blast

theorem check_game_over_winner_witness:
  "field ''game_over'' (fst (check_game_over demo_engine (state_of demo_table_folded))) = Some (PBool True)
   \<and> field ''final_stacks'' (fst (check_game_over demo_engine (state_of demo_table_folded)))
       = Some (PList [PDict [(''player'', PStr ''Player1''), (''seat'', PInt 0), (''final_stack'', PInt 102)],
                      PDict [(''player'', PStr ''Player2''), (''seat'', PInt 1), (''final_stack'', PInt 98)]])
   \<and> field ''winner'' (fst (check_game_over demo_engine (state_of demo_table_folded)))
       = Some (PDict [(''name'', PStr ''Player2''), (''seat'', PInt 1), (''final_stack'', PInt 98)])
   \<and> field ''winner'' (fst (check_game_over demo_engine (state_of demo_table))) = Some PNone
   \<and> field ''final_stacks'' (fst (check_game_over demo_engine (state_of demo_table))) = Some (PList [])"
proof -
  have h1: "game_table (state_of demo_table_folded) = Some demo_table_folded"
    by (simp add: state_of_def)
  have h2: "game_table (state_of demo_table) = Some demo_table"
    by (simp add: state_of_def)
  have d1: "done_flag demo_table_folded" by (simp add: demo_table_folded_def)
  have d2: "\<not> done_flag demo_table" by (simp add: demo_table_def)
  have w: "(1::nat) < length (players demo_table_folded) \<and> 0 < stack (players demo_table_folded ! 1)
           \<and> (\<forall>j. 1 < j \<and> j < length (players demo_table_folded)
                   \<longrightarrow> stack (players demo_table_folded ! j) \<le> 0)"
    by (simp add: demo_table_folded_def)
  have v: "map (\<lambda>p. PDict [(''player'', PStr (name p)), (''seat'', PInt (int (seat p))),
                             (''final_stack'', PInt (stack p))]) (players demo_table_folded)
             = [PDict [(''player'', PStr ''Player1''), (''seat'', PInt 0), (''final_stack'', PInt 102)],
                PDict [(''player'', PStr ''Player2''), (''seat'', PInt 1), (''final_stack'', PInt 98)]]"
    "PDict [(''name'', PStr (name (players demo_table_folded ! 1))),
            (''seat'', PInt (int (seat (players demo_table_folded ! 1)))),
            (''final_stack'', PInt (stack (players demo_table_folded ! 1)))]
       = PDict [(''name'', PStr ''Player2''), (''seat'', PInt 1), (''final_stack'', PInt 98)]"
    by (simp_all add: demo_table_folded_def)
  note a = check_game_over_winner [OF h1, of demo_engine]
  note b = check_game_over_winner [OF h2, of demo_engine]
  have a3: "field ''game_over'' (fst (check_game_over demo_engine (state_of demo_table_folded)))
              = Some (PBool True)"
    using conjunct1 [OF conjunct2 [OF conjunct2 [OF a]]] d1 by simp
  note a5 = mp [OF conjunct2 [OF conjunct2 [OF conjunct2 [OF conjunct2 [OF a]]]] d1]
  have f1: "field ''final_stacks'' (fst (check_game_over demo_engine (state_of demo_table_folded)))
              = Some (PList [PDict [(''player'', PStr ''Player1''), (''seat'', PInt 0), (''final_stack'', PInt 102)],
                             PDict [(''player'', PStr ''Player2''), (''seat'', PInt 1), (''final_stack'', PInt 98)]])"
    using conjunct1 [OF a5] by (simp only: v)
  have f2: "field ''winner'' (fst (check_game_over demo_engine (state_of demo_table_folded)))
              = Some (PDict [(''name'', PStr ''Player2''), (''seat'', PInt 1), (''final_stack'', PInt 98)])"
    using mp [OF spec [OF conjunct1 [OF conjunct2 [OF a5]], of 1] w] by (simp only: v)
  note b4 = mp [OF conjunct1 [OF conjunct2 [OF conjunct2 [OF conjunct2 [OF b]]]] d2]
  show ?thesis
    by (intro conjI) (rule a3, rule f1, rule f2, rule conjunct1 [OF b4], rule conjunct2 [OF b4])
qed

section \<open>Pot odds\<close>

lemma demo_table_negative_blind_reached:
  "game_table (snd (initialize_poker_game demo_engine 100 (- 1) 0 empty_state))
     = Some demo_table_negative_blind"
  by code_simp

text \<open>
  C10, as the claim states it, fails: \<^verbatim>\<open>calculate_pot_odds\<close> can divide by zero.
  After \<^verbatim>\<open>initialize_poker_game(100, -1, 0)\<close> the pot is -1 and \<^verbatim>\<open>min_call\<close> is 1, so
  \<^verbatim>\<open>min_call > 0\<close>, and \<^verbatim>\<open>call_amount / (total_pot + call_amount)\<close> divides by 0: the
  tool catches the error and returns status \<^verbatim>\<open>"error"\<close>, not the pot odds.
\<close>

theorem pot_odds_division_by_zero:
  "field ''status'' (fst (initialize_poker_game demo_engine 100 (- 1) 0 empty_state))
     = Some (PStr ''success'')
   \<and> map_option min_call (game_table (snd (initialize_poker_game demo_engine 100 (- 1) 0 empty_state)))
     = Some (Some 1)
   \<and> map_option (\<lambda>t. community_pot t + current_round_pot t)
        (game_table (snd (initialize_poker_game demo_engine 100 (- 1) 0 empty_state)))
     = Some (- 1)
   \<and> fst (calculate_pot_odds demo_engine
             (snd (initialize_poker_game demo_engine 100 (- 1) 0 empty_state)))
     = PDict [(''status'', PStr ''error''),
              (''message'', PStr ''Error calculating pot odds: division by zero'')]"
  by code_simp

lemma float_threshold: "(2::int) \<le> 2 ^ 1024 - 2 ^ 970"
proof -
  have "(2::int) ^ 1024 = 2 ^ 970 * 2 ^ 54"
    by (simp flip: power_add)
  moreover have "(1::int) \<le> 2 ^ 970" by simp
  moreover have "(3::int) \<le> 2 ^ 54 - 1" by simp
  ultimately have "(3::int) \<le> 2 ^ 970 * (2 ^ 54 - 1)"
    by (metis mult_mono' mult_1 zero_le_numeral zero_le_one order_trans)
  moreover have "(2::int) ^ 970 * (2 ^ 54 - 1) = 2 ^ 1024 - 2 ^ 970"
    using \<open>(2::int) ^ 1024 = 2 ^ 970 * 2 ^ 54\<close> by (simp add: algebra_simps)
  ultimately show ?thesis by simp
qed

lemma no_overflow_below_one:
  assumes "0 < c" and "0 \<le> p"
  shows "\<not> float_overflow c (p + c)"
proof
  assume "float_overflow c (p + c)"
  then have "(2 ^ 1024 - 2 ^ 970) * (p + c) \<le> c"
    using assms by (simp add: float_overflow_def)
  moreover have "2 * (p + c) \<le> (2 ^ 1024 - 2 ^ 970) * (p + c)"
    using float_threshold assms by (intro mult_right_mono) simp_all
  ultimately show False using assms by simp
qed

text \<open>
  C10, amended. \<^verbatim>\<open>calculate_pot_odds\<close> on an initialized game changes nothing. With
  \<^verbatim>\<open>min_call > 0\<close>, \<^verbatim>\<open>total_pot + min_call\<close> different from 0 and both quotients within
  the range of a float, it returns \<^verbatim>\<open>pot_odds = total_pot / min_call\<close> and
  \<^verbatim>\<open>pot_odds_percentage = round(min_call / (total_pot + min_call) * 100, 2)\<close>, where
  \<^verbatim>\<open>total_pot = community_pot + current_round_pot\<close>. With \<^verbatim>\<open>min_call > 0\<close> and
  \<^verbatim>\<open>total_pot + min_call = 0\<close> the second division divides by zero: the error is caught
  and the tool returns status \<^verbatim>\<open>"error"\<close> with the message
  \<^verbatim>\<open>Error calculating pot odds: division by zero\<close>. When a quotient is out of the range
  of a float it returns status \<^verbatim>\<open>"error"\<close> with the message of the overflow. With
  \<^verbatim>\<open>min_call\<close> equal to 0 or not set it returns \<^verbatim>\<open>pot_odds = inf\<close> and
  \<^verbatim>\<open>pot_odds_percentage = round(float(0), 2)\<close>. When neither pot is negative, the
  divisor \<^verbatim>\<open>total_pot + min_call\<close> is not 0 and the second quotient is within range.
\<close>

theorem pot_odds_defined:
  assumes "game_table s = Some t"
  shows "snd (calculate_pot_odds eng s) = s
       \<and> (\<forall>c. min_call t = Some c \<and> 0 < c
               \<and> community_pot t + current_round_pot t + c \<noteq> 0
               \<and> \<not> float_overflow (community_pot t + current_round_pot t) c
               \<and> \<not> float_overflow c (community_pot t + current_round_pot t + c) \<longrightarrow>
            field ''status'' (fst (calculate_pot_odds eng s)) = Some (PStr ''success'')
          \<and> field ''pot_odds'' (fst (calculate_pot_odds eng s))
              = Some (PFloat (FTrueDiv (community_pot t + current_round_pot t) c))
          \<and> field ''pot_odds_percentage'' (fst (calculate_pot_odds eng s))
              = Some (PFloat (FRound (FMulInt
                   (FTrueDiv c (community_pot t + current_round_pot t + c)) 100) 2)))
       \<and> (\<forall>c. min_call t = Some c \<and> 0 < c
               \<and> \<not> float_overflow (community_pot t + current_round_pot t) c
               \<and> community_pot t + current_round_pot t + c = 0 \<longrightarrow>
            fst (calculate_pot_odds eng s)
              = PDict [(''status'', PStr ''error''),
                       (''message'', PStr ''Error calculating pot odds: division by zero'')])
       \<and> (\<forall>c. min_call t = Some c \<and> 0 < c
               \<and> (float_overflow (community_pot t + current_round_pot t) c
                  \<or> community_pot t + current_round_pot t + c \<noteq> 0
                    \<and> float_overflow c (community_pot t + current_round_pot t + c)) \<longrightarrow>
            fst (calculate_pot_odds eng s)
              = PDict [(''status'', PStr ''error''),
                       (''message'', PStr (''Error calculating pot odds: ''
                                           @ ''integer division result too large for a float''))])
       \<and> (min_call t = None \<or> min_call t = Some 0 \<longrightarrow>
            field ''status'' (fst (calculate_pot_odds eng s)) = Some (PStr ''success'')
          \<and> field ''pot_odds'' (fst (calculate_pot_odds eng s)) = Some (PFloat FInf)
          \<and> field ''pot_odds_percentage'' (fst (calculate_pot_odds eng s))
              = Some (PFloat (FRound (FOfInt 0) 2)))
       \<and> (0 \<le> community_pot t \<and> 0 \<le> current_round_pot t \<longrightarrow>
            (\<forall>c. 0 < c \<longrightarrow> community_pot t + current_round_pot t + c \<noteq> 0
                            \<and> \<not> float_overflow c (community_pot t + current_round_pot t + c)))"
proof (intro conjI allI impI)
  show "snd (calculate_pot_odds eng s) = s"
    using assms by (simp add: calculate_pot_odds_def Let_def split: sum.splits)
next
  fix c
  assume h: "min_call t = Some c \<and> 0 < c
               \<and> community_pot t + current_round_pot t + c \<noteq> 0
               \<and> \<not> float_overflow (community_pot t + current_round_pot t) c
               \<and> \<not> float_overflow c (community_pot t + current_round_pot t + c)"
  then have d: "true_div (community_pot t + current_round_pot t) c
                  = Inr (FTrueDiv (community_pot t + current_round_pot t) c)"
    "true_div c (community_pot t + current_round_pot t + c)
                  = Inr (FTrueDiv c (community_pot t + current_round_pot t + c))"
    by (simp_all add: true_div_def)
  from h d assms show "field ''status'' (fst (calculate_pot_odds eng s)) = Some (PStr ''success'')"
    and "field ''pot_odds'' (fst (calculate_pot_odds eng s))
              = Some (PFloat (FTrueDiv (community_pot t + current_round_pot t) c))"
    and "field ''pot_odds_percentage'' (fst (calculate_pot_odds eng s))
              = Some (PFloat (FRound (FMulInt
                   (FTrueDiv c (community_pot t + current_round_pot t + c)) 100) 2))"
    by (simp_all add: calculate_pot_odds_def Let_def)
next
  fix c
  assume h: "min_call t = Some c \<and> 0 < c
               \<and> \<not> float_overflow (community_pot t + current_round_pot t) c
               \<and> community_pot t + current_round_pot t + c = 0"
  then have d: "true_div (community_pot t + current_round_pot t) c
                  = Inr (FTrueDiv (community_pot t + current_round_pot t) c)"
    "true_div c (community_pot t + current_round_pot t + c)
                  = Inl (Exception ''ZeroDivisionError'' ''division by zero'')"
    by (simp_all add: true_div_def)
  from h d assms show "fst (calculate_pot_odds eng s)
              = PDict [(''status'', PStr ''error''),
                       (''message'', PStr ''Error calculating pot odds: division by zero'')]"
    by (simp add: calculate_pot_odds_def Let_def error_dict_def)
next
  fix c
  assume h: "min_call t = Some c \<and> 0 < c
               \<and> (float_overflow (community_pot t + current_round_pot t) c
                  \<or> community_pot t + current_round_pot t + c \<noteq> 0
                    \<and> float_overflow c (community_pot t + current_round_pot t + c))"
  show "fst (calculate_pot_odds eng s)
              = PDict [(''status'', PStr ''error''),
                       (''message'', PStr (''Error calculating pot odds: ''
                                           @ ''integer division result too large for a float''))]"
  proof (cases "float_overflow (community_pot t + current_round_pot t) c")
    case True
    with h have "true_div (community_pot t + current_round_pot t) c
                   = Inl (Exception ''OverflowError'' ''integer division result too large for a float'')"
      by (simp add: true_div_def)
    with h assms show ?thesis
      by (simp add: calculate_pot_odds_def Let_def error_dict_def)
  next
    case False
    with h have "true_div (community_pot t + current_round_pot t) c
                   = Inr (FTrueDiv (community_pot t + current_round_pot t) c)"
      and "true_div c (community_pot t + current_round_pot t + c)
                   = Inl (Exception ''OverflowError'' ''integer division result too large for a float'')"
      by (simp_all add: true_div_def)
    with h assms show ?thesis
      by (simp add: calculate_pot_odds_def Let_def error_dict_def)
  qed
next
  assume "min_call t = None \<or> min_call t = Some 0"
  with assms show "field ''status'' (fst (calculate_pot_odds eng s)) = Some (PStr ''success'')"
    and "field ''pot_odds'' (fst (calculate_pot_odds eng s)) = Some (PFloat FInf)"
    and "field ''pot_odds_percentage'' (fst (calculate_pot_odds eng s))
              = Some (PFloat (FRound (FOfInt 0) 2))"
    by (auto simp add: calculate_pot_odds_def Let_def)
next
  fix c :: int
  assume p: "0 \<le> community_pot t \<and> 0 \<le> current_round_pot t" and c: "0 < c"
  then show "community_pot t + current_round_pot t + c \<noteq> 0" by simp
  from p c show "\<not> float_overflow c (community_pot t + current_round_pot t + c)"
    using no_overflow_below_one [of c "community_pot t + current_round_pot t"] by simp
qed

theorem pot_odds_defined_witness:
  "field ''pot_odds'' (fst (calculate_pot_odds demo_engine (state_of demo_table)))
     = Some (PFloat (FTrueDiv 3 1))
   \<and> field ''pot_odds_percentage'' (fst (calculate_pot_odds demo_engine (state_of demo_table)))
     = Some (PFloat (FRound (FMulInt (FTrueDiv 1 4) 100) 2))
   \<and> fst (calculate_pot_odds demo_engine (state_of demo_table_negative_blind))
     = PDict [(''status'', PStr ''error''),
              (''message'', PStr ''Error calculating pot odds: division by zero'')]
   \<and> field ''pot_odds'' (fst (calculate_pot_odds demo_engine (state_of demo_table_folded)))
     = Some (PFloat FInf)
   \<and> field ''pot_odds_percentage'' (fst (calculate_pot_odds demo_engine (state_of demo_table_folded)))
     = Some (PFloat (FRound (FOfInt 0) 2))"
proof -
  have h1: "game_table (state_of demo_table) = Some demo_table"
    and h2: "game_table (state_of demo_table_folded) = Some demo_table_folded"
    and h3: "game_table (state_of demo_table_negative_blind) = Some demo_table_negative_blind"
    by (simp_all add: state_of_def)
  have v: "community_pot demo_table + current_round_pot demo_table = 3"
    by (simp add: demo_table_def)
  have m1: "min_call demo_table = Some 1 \<and> (0::int) < 1
            \<and> community_pot demo_table + current_round_pot demo_table + 1 \<noteq> 0
            \<and> \<not> float_overflow (community_pot demo_table + current_round_pot demo_table) 1
            \<and> \<not> float_overflow 1 (community_pot demo_table + current_round_pot demo_table + 1)"
    by code_simp
  have m2: "min_call demo_table_folded = None \<or> min_call demo_table_folded = Some 0"
    by (simp add: demo_table_folded_def)
  have m3: "min_call demo_table_negative_blind = Some 1 \<and> (0::int) < 1
            \<and> \<not> float_overflow
                 (community_pot demo_table_negative_blind + current_round_pot demo_table_negative_blind) 1
            \<and> community_pot demo_table_negative_blind
                + current_round_pot demo_table_negative_blind + 1 = 0"
    by code_simp
  note a = pot_odds_defined [OF h1, of demo_engine]
  note b = pot_odds_defined [OF h2, of demo_engine]
  note c = pot_odds_defined [OF h3, of demo_engine]
  note a2 = mp [OF spec [OF conjunct1 [OF conjunct2 [OF a]], of 1] m1]
  have f1: "field ''pot_odds'' (fst (calculate_pot_odds demo_engine (state_of demo_table)))
              = Some (PFloat (FTrueDiv 3 1))"
    using conjunct1 [OF conjunct2 [OF a2]] by (simp only: v)
  have f2: "field ''pot_odds_percentage'' (fst (calculate_pot_odds demo_engine (state_of demo_table)))
              = Some (PFloat (FRound (FMulInt (FTrueDiv 1 4) 100) 2))"
    using conjunct2 [OF conjunct2 [OF a2]] by (simp add: v)
  note f3 = mp [OF spec [OF conjunct1 [OF conjunct2 [OF conjunct2 [OF c]]], of 1] m3]
  note b5 = mp [OF conjunct1 [OF conjunct2 [OF conjunct2 [OF conjunct2 [OF conjunct2 [OF b]]]]] m2]
  show ?thesis
    by (intro conjI)
       (rule f1, rule f2, rule f3, rule conjunct1 [OF conjunct2 [OF b5]],
        rule conjunct2 [OF conjunct2 [OF b5]])
qed

section \<open>Initialization\<close>




section \<open>One global table\<close>

text \<open>
  C4, as the claim states it, fails: the tool layer keeps the table in the module-level
  global \<^verbatim>\<open>game_table\<close>. After a first game is initialized, a second
  \<^verbatim>\<open>initialize_poker_game(50, 5, 10)\<close> leaves a different table in the global: the
  first table is replaced.
\<close>

theorem second_initialize_replaces_table:
  "game_table demo_started = Some demo_table
   \<and> game_table (snd (initialize_poker_game demo_engine 50 5 10 demo_started)) \<noteq> Some demo_table
   \<and> map_option initial_stacks (game_table (snd (initialize_poker_game demo_engine 50 5 10 demo_started)))
       = Some 50"
  by code_simp


text \<open>
  C4, amended. The tool layer keeps one process-wide table. The answer of
  \<^verbatim>\<open>initialize_poker_game\<close> does not depend on the state before the call, and when it
  succeeds the global table after the call is the newly constructed one, whatever table
  was initialized before: the earlier table is replaced.
\<close>

theorem initialize_replaces_global_table:
  "fst (initialize_poker_game eng a b c s) = fst (initialize_poker_game eng a b c s0)
   \<and> (field ''status'' (fst (initialize_poker_game eng a b c s)) = Some (PStr ''success'') \<longrightarrow>
        game_table (snd (initialize_poker_game eng a b c s))
          = game_table (snd (initialize_poker_game eng a b c s0))
      \<and> game_table (snd (initialize_poker_game eng a b c s)) \<noteq> None)"
  by (auto simp add: initialize_poker_game_def error_dict_def Let_def
      split: sum.splits prod.splits option.splits)


theorem initialize_replaces_global_table_witness:
  "fst (initialize_poker_game demo_engine 50 5 10 demo_started)
     = fst (initialize_poker_game demo_engine 50 5 10 empty_state)
   \<and> game_table (snd (initialize_poker_game demo_engine 50 5 10 demo_started))
     = game_table (snd (initialize_poker_game demo_engine 50 5 10 empty_state))
   \<and> game_table (snd (initialize_poker_game demo_engine 50 5 10 demo_started)) \<noteq> None"
proof -
  have h: "field ''status'' (fst (initialize_poker_game demo_engine 50 5 10 demo_started))
             = Some (PStr ''success'')"
    by code_simp
  from initialize_replaces_global_table [of demo_engine 50 5 10 demo_started empty_state] h
  show ?thesis by blast
qed

section \<open>What the tools show of the table\<close>

lemma convert_card_strs:
  "convert_numpy_types (PList (map (\<lambda>c. PStr (f c)) cs)) = PList (map (\<lambda>c. PStr (f c)) cs)"
  by simp

lemma field_player_info:
  "field ''cards'' (convert_numpy_types (player_info eng t i p))
     = Some (PList (map (\<lambda>c. PStr (card_str eng c)) (cards p)))"
  "field ''stack'' (convert_numpy_types (player_info eng t i p)) = Some (PInt (stack p))"
  "field ''current_bet'' (convert_numpy_types (player_info eng t i p))
     = Some (PInt (if i < length (player_pots t) then player_pots t ! i else 0))"
  by (simp_all add: player_info_def)

lemma map_enumerate_snd: "map (\<lambda>(i, p). g p) (enumerate n ps) = map g ps"
  by (induction ps arbitrary: n) auto

lemma map_enumerate_fst: "map (\<lambda>(i, p). g i) (enumerate n ps) = map g [n..<n + length ps]"
proof -
  have "map (\<lambda>(i, p). g i) (enumerate n ps) = map (g \<circ> fst) (enumerate n ps)"
    by (simp add: case_prod_unfold comp_def)
  also have "\<dots> = map g (map fst (enumerate n ps))"
    by (simp only: map_map)
  also have "\<dots> = map g [n..<n + length ps]"
    by simp
  finally show ?thesis .
qed

lemma players_of_game_state:
  assumes "game_table s = Some t" and "get_environment eng t = (None, t')"
  shows "field ''players'' (fst (get_game_state eng s))
          = Some (PList (map (\<lambda>(i, p). convert_numpy_types (player_info eng t' i p)) (enumerate 0 (players t'))))"
  using assms
  by (simp add: get_game_state_def game_state_dict_def Let_def case_prod_unfold comp_def)


lemma demo_environment: "get_environment demo_engine demo_table = (None, demo_table)"
  by code_simp

text \<open>
  C1, as the claim states it, fails: right after initialization the stage is PREFLOP,
  and \<^verbatim>\<open>get_player_hand\<close> returns the hole cards of seat 0 and of seat 1 to whoever
  calls it, and \<^verbatim>\<open>get_game_state\<close> returns the hole cards of both seats at once. The
  tools take no observer.
\<close>

theorem hole_cards_leak:
  "map_option stage (game_table demo_started) = Some (Some PREFLOP)
   \<and> field ''hand_cards'' (fst (get_player_hand demo_engine 0 demo_started))
       = Some (PList [PStr ''14S'', PStr ''13S''])
   \<and> field ''hand_cards'' (fst (get_player_hand demo_engine 1 demo_started))
       = Some (PList [PStr ''2H'', PStr ''7D''])
   \<and> map_option (\<lambda>ps. case ps of PList xs \<Rightarrow> map (field ''cards'') xs | _ \<Rightarrow> [])
       (field ''players'' (fst (get_game_state demo_engine demo_started)))
       = Some [Some (PList [PStr ''14S'', PStr ''13S'']), Some (PList [PStr ''2H'', PStr ''7D''])]"
  by code_simp


text \<open>
  C1, amended. At every stage, \<^verbatim>\<open>get_player_hand\<close> returns as \<^verbatim>\<open>hand_cards\<close> the
  hole cards of whichever valid seat is asked for, and \<^verbatim>\<open>get_game_state\<close>, when it
  succeeds, returns as \<^verbatim>\<open>players[i].cards\<close> the hole cards the table holds for every
  seat; neither depends on who calls or on the stage.
\<close>

theorem hole_cards_exposed_to_any_caller:
  assumes "game_table s = Some t"
  shows "(0 \<le> k \<and> k < int (length (players t)) \<longrightarrow>
            field ''hand_cards'' (fst (get_player_hand eng k s))
              = Some (PList (map (\<lambda>c. PStr (card_str eng c)) (cards (players t ! nat k)))))
       \<and> (\<forall>t'. get_environment eng t = (None, t') \<longrightarrow>
            (\<exists>ps. field ''players'' (fst (get_game_state eng s)) = Some (PList ps)
                 \<and> map (field ''cards'') ps
                     = map (\<lambda>p. Some (PList (map (\<lambda>c. PStr (card_str eng c)) (cards p)))) (players t')))"
proof (intro conjI impI allI)
  assume "0 \<le> k \<and> k < int (length (players t))"
  then show "field ''hand_cards'' (fst (get_player_hand eng k s))
              = Some (PList (map (\<lambda>c. PStr (card_str eng c)) (cards (players t ! nat k))))"
    using assms by (simp add: get_player_hand_def Let_def)
next
  fix t'
  assume env: "get_environment eng t = (None, t')"
  have "field ''players'' (fst (get_game_state eng s))
          = Some (PList (map (\<lambda>(i, p). convert_numpy_types (player_info eng t' i p)) (enumerate 0 (players t'))))"
    using assms env
    by (simp add: get_game_state_def game_state_dict_def Let_def case_prod_unfold comp_def)
  moreover have "map (field ''cards'') (map (\<lambda>(i, p). convert_numpy_types (player_info eng t' i p)) (enumerate 0 (players t')))
          = map (\<lambda>p. Some (PList (map (\<lambda>c. PStr (card_str eng c)) (cards p)))) (players t')"
    using map_enumerate_snd [of "\<lambda>p. Some (PList (map (\<lambda>c. PStr (card_str eng c)) (cards p)))" 0 "players t'"]
    by (simp add: comp_def case_prod_unfold field_player_info)
  ultimately show "\<exists>ps. field ''players'' (fst (get_game_state eng s)) = Some (PList ps)
                 \<and> map (field ''cards'') ps
                     = map (\<lambda>p. Some (PList (map (\<lambda>c. PStr (card_str eng c)) (cards p)))) (players t')"
    by blast
qed


theorem hole_cards_exposed_to_any_caller_witness:
  "field ''hand_cards'' (fst (get_player_hand demo_engine 1 (state_of demo_table)))
     = Some (PList (map (\<lambda>c. PStr (card_str demo_engine c)) (cards (players demo_table ! nat 1))))
   \<and> (\<exists>ps. field ''players'' (fst (get_game_state demo_engine (state_of demo_table))) = Some (PList ps)
          \<and> map (field ''cards'') ps
              = map (\<lambda>p. Some (PList (map (\<lambda>c. PStr (card_str demo_engine c)) (cards p))))
                  (players demo_table))"
proof -
  have h: "game_table (state_of demo_table) = Some demo_table"
    by (simp add: state_of_def)
  have k: "(0::int) \<le> 1 \<and> 1 < int (length (players demo_table))"
    by (simp add: demo_table_def)
  from hole_cards_exposed_to_any_caller [OF h, of 1 demo_engine] k demo_environment
  show ?thesis by blast
qed

text \<open>
  C7, as the claim states it, fails: \<^verbatim>\<open>calculate_pot_odds\<close> computes on the pot in
  floating point. After the actions call, check and raise, the pot is 10 and the call 6:
  \<^verbatim>\<open>pot_odds\<close> is the float \<^verbatim>\<open>10 / 6\<close> and \<^verbatim>\<open>pot_odds_percentage\<close> the float
  \<^verbatim>\<open>round(6 / 16 * 100, 2)\<close>.
\<close>

theorem floats_in_pot_odds:
  "field ''pot_odds''
     (fst (calculate_pot_odds demo_engine
        (run_actions demo_engine [''call'', ''check'', ''raise_3bb''] demo_started)))
     = Some (PFloat (FTrueDiv 10 6))
   \<and> field ''pot_odds_percentage''
     (fst (calculate_pot_odds demo_engine
        (run_actions demo_engine [''call'', ''check'', ''raise_3bb''] demo_started)))
     = Some (PFloat (FRound (FMulInt (FTrueDiv 6 16) 100) 2))"
  by code_simp


text \<open>
  C7, amended. The chip amounts the tools expose (\<^verbatim>\<open>community_pot\<close>,
  \<^verbatim>\<open>current_round_pot\<close>, \<^verbatim>\<open>min_call\<close>, each player's \<^verbatim>\<open>stack\<close> and
  \<^verbatim>\<open>current_bet\<close>, and \<^verbatim>\<open>total_pot\<close> and \<^verbatim>\<open>call_amount\<close> of
  \<^verbatim>\<open>calculate_pot_odds\<close>) are the integers the table holds, passed through unchanged
  (so they are non-negative whenever the table's are; \<^verbatim>\<open>current_bet\<close> is 0 for a seat
  without an entry in \<^verbatim>\<open>player_pots\<close>, \<^verbatim>\<open>min_call\<close> is 0 when the attribute is not
  set). Floating point is used in \<^verbatim>\<open>calculate_pot_odds\<close>, whose \<^verbatim>\<open>pot_odds\<close> and
  \<^verbatim>\<open>pot_odds_percentage\<close> are floats.
\<close>

theorem chip_amounts_passed_through:
  assumes "game_table s = Some t" and "get_environment eng t = (None, t')"
  shows "field ''community_pot'' (fst (get_game_state eng s)) = Some (PInt (community_pot t'))
       \<and> field ''current_round_pot'' (fst (get_game_state eng s)) = Some (PInt (current_round_pot t'))
       \<and> field ''min_call'' (fst (get_game_state eng s))
           = Some (PInt (case min_call t' of Some c \<Rightarrow> c | None \<Rightarrow> 0))
       \<and> (\<exists>ps. field ''players'' (fst (get_game_state eng s)) = Some (PList ps)
              \<and> map (field ''stack'') ps = map (\<lambda>p. Some (PInt (stack p))) (players t')
              \<and> map (field ''current_bet'') ps
                  = map (\<lambda>i. Some (PInt (if i < length (player_pots t') then player_pots t' ! i else 0)))
                      [0..<length (players t')])
       \<and> (field ''status'' (fst (calculate_pot_odds eng s)) = Some (PStr ''success'') \<longrightarrow>
            field ''total_pot'' (fst (calculate_pot_odds eng s))
              = Some (PInt (community_pot t + current_round_pot t))
          \<and> field ''call_amount'' (fst (calculate_pot_odds eng s))
              = Some (PInt (case min_call t of Some c \<Rightarrow> c | None \<Rightarrow> 0))
          \<and> (\<exists>x y. field ''pot_odds'' (fst (calculate_pot_odds eng s)) = Some (PFloat x)
                  \<and> field ''pot_odds_percentage'' (fst (calculate_pot_odds eng s)) = Some (PFloat y)))"
proof -
  have a: "field ''community_pot'' (fst (get_game_state eng s)) = Some (PInt (community_pot t'))
       \<and> field ''current_round_pot'' (fst (get_game_state eng s)) = Some (PInt (current_round_pot t'))
       \<and> field ''min_call'' (fst (get_game_state eng s))
           = Some (PInt (case min_call t' of Some c \<Rightarrow> c | None \<Rightarrow> 0))"
    using assms by (simp add: get_game_state_def game_state_dict_def Let_def)
  let ?ps = "map (\<lambda>(i, p). convert_numpy_types (player_info eng t' i p)) (enumerate 0 (players t'))"
  have b1: "map (field ''stack'') ?ps = map (\<lambda>p. Some (PInt (stack p))) (players t')"
    using map_enumerate_snd [of "\<lambda>p. Some (PInt (stack p))" 0 "players t'"]
    by (simp add: comp_def case_prod_unfold field_player_info)
  have b2: "map (field ''current_bet'') ?ps
              = map (\<lambda>i. Some (PInt (if i < length (player_pots t') then player_pots t' ! i else 0)))
                  [0..<length (players t')]"
    using map_enumerate_fst [of "\<lambda>i. Some (PInt (if i < length (player_pots t') then player_pots t' ! i else 0))" 0 "players t'"]
    by (simp add: comp_def case_prod_unfold field_player_info)
  have c: "field ''status'' (fst (calculate_pot_odds eng s)) = Some (PStr ''success'') \<longrightarrow>
            field ''total_pot'' (fst (calculate_pot_odds eng s))
              = Some (PInt (community_pot t + current_round_pot t))
          \<and> field ''call_amount'' (fst (calculate_pot_odds eng s))
              = Some (PInt (case min_call t of Some c \<Rightarrow> c | None \<Rightarrow> 0))
          \<and> (\<exists>x y. field ''pot_odds'' (fst (calculate_pot_odds eng s)) = Some (PFloat x)
                  \<and> field ''pot_odds_percentage'' (fst (calculate_pot_odds eng s)) = Some (PFloat y))"
    using assms(1)
    by (auto simp add: calculate_pot_odds_def Let_def error_dict_def split: sum.splits)
  from a players_of_game_state [OF assms] b1 b2 c show ?thesis by blast
qed


theorem chip_amounts_passed_through_witness:
  "field ''community_pot'' (fst (get_game_state demo_engine (state_of demo_table))) = Some (PInt 0)
   \<and> field ''current_round_pot'' (fst (get_game_state demo_engine (state_of demo_table))) = Some (PInt 3)
   \<and> field ''min_call'' (fst (get_game_state demo_engine (state_of demo_table))) = Some (PInt 1)
   \<and> (\<exists>ps. field ''players'' (fst (get_game_state demo_engine (state_of demo_table))) = Some (PList ps)
          \<and> map (field ''stack'') ps = [Some (PInt 99), Some (PInt 98)]
          \<and> map (field ''current_bet'') ps = [Some (PInt 1), Some (PInt 2)])
   \<and> field ''total_pot'' (fst (calculate_pot_odds demo_engine (state_of demo_table))) = Some (PInt 3)
   \<and> field ''call_amount'' (fst (calculate_pot_odds demo_engine (state_of demo_table))) = Some (PInt 1)"
proof -
  have h: "game_table (state_of demo_table) = Some demo_table"
    by (simp add: state_of_def)
  have ok: "field ''status'' (fst (calculate_pot_odds demo_engine (state_of demo_table)))
              = Some (PStr ''success'')"
    by code_simp
  have v: "community_pot demo_table = 0" "current_round_pot demo_table = 3"
    "min_call demo_table = Some 1"
    "map (\<lambda>p. Some (PInt (stack p))) (players demo_table) = [Some (PInt 99), Some (PInt 98)]"
    "map (\<lambda>i. Some (PInt (if i < length (player_pots demo_table) then player_pots demo_table ! i else 0)))
       [0..<length (players demo_table)] = [Some (PInt 1), Some (PInt 2)]"
    by (simp_all add: demo_table_def upt_rec)
  from chip_amounts_passed_through [OF h demo_environment] ok v
  show ?thesis by simp
qed

section \<open>Chip conservation\<close>

lemma sum_list_map_update:
  fixes f :: "'a \<Rightarrow> int"
  shows "i < length ps \<Longrightarrow> sum_list (map f (ps[i := x])) = sum_list (map f ps) - f (ps ! i) + f x"
proof (induction ps arbitrary: i)
  case Nil
  then show ?case by simp
next
  case (Cons p ps)
  then show ?case by (cases i) auto
qed

lemma map_stack_update_same:
  assumes "stack x = stack (ps ! i)"
  shows "map stack (ps[i := x]) = map stack ps"
proof (cases "i < length ps")
  case True
  with assms show ?thesis by (simp add: map_update list_update_same_conv)
next
  case False
  then have "ps[i := x] = ps" by (intro list_update_beyond) simp
  then show ?thesis by simp
qed

lemma total_commit: "commit i amount t = Inr t' \<Longrightarrow> total_chips t' = total_chips t"
  by (auto simp add: commit_def total_chips_def sum_list_map_update split: if_splits)

lemma total_collapse_round [simp]: "total_chips (collapse_round t) = total_chips t"
  by (simp add: collapse_round_def total_chips_def)

lemma total_award [simp]: "total_chips (award i amount t) = total_chips t"
  by (simp add: award_def total_chips_def sum_list_map_update)

lemma total_fold_seat [simp]: "total_chips (fold_seat i t) = total_chips t"
  by (simp add: fold_seat_def total_chips_def map_stack_update_same)

lemma total_record_action [simp]: "total_chips (record_action i a t) = total_chips t"
  by (simp add: record_action_def total_chips_def Let_def)

lemma total_start_round [simp]: "total_chips (start_round t) = total_chips t"
  by (simp add: start_round_def total_chips_def)

lemma total_refresh [simp]: "total_chips (refresh R t) = total_chips t"
  by (simp add: refresh_def total_chips_def split: option.splits)

lemma total_fold_award:
  "total_chips (fold (\<lambda>i. award i (g i)) seats0 t) = total_chips t"
  by (induction seats0 arbitrary: t) simp_all

lemma total_pay_pot [simp]: "total_chips (pay_pot R pot t) = total_chips t"
  by (simp add: pay_pot_def total_fold_award split: list.splits)

lemma total_fold_pay_pot: "total_chips (fold (pay_pot R) pots t) = total_chips t"
  by (induction pots arbitrary: t) simp_all

lemma total_refund_excess [simp]: "total_chips (refund_excess ls t) = total_chips t"
  by (simp add: refund_excess_def total_fold_award)

lemma total_showdown [simp]: "total_chips (showdown R t) = total_chips t"
proof -
  have "total_chips (showdown R t) = total_chips (refund_excess (tiers t) (fold (pay_pot R) (side_pots t) t))"
    by (simp add: showdown_def Let_def total_chips_def)
  then show ?thesis by (simp add: total_fold_pay_pot)
qed

lemma total_end_hand_early [simp]: "total_chips (end_hand_early t) = total_chips t"
proof -
  have "total_chips (end_hand_early t)
          = total_chips (case (case filter (contesting t) (seats t) of [] \<Rightarrow> None | w # ws \<Rightarrow> Some w) of
                           None \<Rightarrow> collapse_round t
                         | Some w \<Rightarrow> award w (community_pot (collapse_round t)) (collapse_round t))"
    by (simp add: end_hand_early_def Let_def total_chips_def)
  then show ?thesis by (simp split: option.splits list.splits)
qed

lemma total_advance: "advance R sts t = Inr t' \<Longrightarrow> total_chips t' = total_chips t"
proof (induction sts arbitrary: t)
  case Nil
  then show ?case by simp
next
  case (Cons a sts)
  obtain st n where a: "a = (st, n)" by (cases a)
  from Cons.prems obtain cs d where d: "deal n (deck t) = Inr (cs, d)"
    by (auto simp add: a split: sum.splits)
  let ?t1 = "start_round ((collapse_round t)\<lparr>stage := Some st, table_cards := table_cards t @ cs, deck := d\<rparr>)"
  have t1: "total_chips ?t1 = total_chips t"
    by (simp add: total_chips_def collapse_round_def start_round_def)
  from Cons.prems d a have
    "(if st = SHOWDOWN then Inr (showdown R ?t1)
      else if round_is_complete ?t1 then advance R sts ?t1 else Inr ?t1) = Inr t'"
    by (simp add: Let_def)
  then show ?case using t1 Cons.IH [of ?t1]
    by (auto split: if_splits)
qed

lemma total_apply_action: "apply_action R i a t = Inr t' \<Longrightarrow> total_chips t' = total_chips t"
  by (cases a) (auto simp add: apply_action_def dest: total_commit)

lemma total_player_cycle_update [simp]: "total_chips (t\<lparr>player_cycle := x\<rparr>) = total_chips t"
  by (simp add: total_chips_def)

lemma total_after_action: "after_action R i t = Inr t' \<Longrightarrow> total_chips t' = total_chips t"
  by (auto simp add: after_action_def split: if_splits option.splits dest: total_advance)

lemma step_unchanged_on_error: "HoldemTable_step R a t = (Inl e, t') \<Longrightarrow> t' = t"
  by (auto simp add: HoldemTable_step_def Let_def split: option.splits if_splits sum.splits)

lemma total_step_ok:
  assumes "HoldemTable_step R a t = (Inr r, t')"
  shows "total_chips t' = total_chips t"
proof -
  from assms obtain i a' t1 t2 where
    "apply_action R i a' t = Inr t1" and "after_action R i (record_action i a' t1) = Inr t2"
    and "t' = refresh R t2"
    by (auto simp add: HoldemTable_step_def Let_def split: option.splits if_splits sum.splits)
  then show ?thesis
    using total_apply_action total_after_action by (metis total_record_action total_refresh)
qed

lemma total_play: "total_chips (play R acts t) = total_chips t"
proof (induction acts arbitrary: t)
  case Nil
  then show ?case by (simp add: play_def)
next
  case (Cons a acts)
  have "total_chips (snd (HoldemTable_step R a t)) = total_chips t"
  proof (cases "HoldemTable_step R a t")
    case (Pair res t')
    then show ?thesis
      by (cases res) (auto dest: step_unchanged_on_error total_step_ok)
  qed
  moreover have "play R (a # acts) t = play R acts (snd (HoldemTable_step R a t))"
    by (simp add: play_def)
  ultimately show ?case using Cons.IH by simp
qed

text \<open>
  C2. On the engine modelled from the specification, the quantity
  \<^verbatim>\<open>sum(stacks) + community_pot + current_round_pot\<close> is the same after every
  \<^verbatim>\<open>step()\<close> call as before it, for every table, every action (legal or not, accepted
  or rejected) and every rule set, and so after every sequence of calls: chips are
  neither created nor destroyed.
\<close>

theorem chips_conserved_by_step:
  "total_chips (snd (HoldemTable_step R a t)) = total_chips t
   \<and> total_chips (play R acts t) = total_chips t"
proof
  show "total_chips (snd (HoldemTable_step R a t)) = total_chips t"
  proof (cases "HoldemTable_step R a t")
    case (Pair res t')
    then show ?thesis
      by (cases res) (auto dest: step_unchanged_on_error total_step_ok)
  qed
  show "total_chips (play R acts t) = total_chips t"
    by (rule total_play)
qed

theorem chips_conserved_by_step_witness:
  "total_chips demo_table = 200
   \<and> total_chips (snd (HoldemTable_step demo_rules CALL demo_table)) = 200
   \<and> play demo_rules [CALL, CHECK, RAISE ''3BB'', FOLD] demo_table = demo_table_folded
   \<and> total_chips demo_table_folded = 200"
proof -
  have a: "total_chips demo_table = 200"
    by (simp add: total_chips_def demo_table_def)
  have b: "play demo_rules [CALL, CHECK, RAISE ''3BB'', FOLD] demo_table = demo_table_folded"
    by code_simp
  from chips_conserved_by_step [of demo_rules CALL demo_table "[CALL, CHECK, RAISE ''3BB'', FOLD]"] a b
  show ?thesis by simp
qed

section \<open>Legality closure\<close>


lemma policy_award [simp]: "illegal_action_policy (award i amount t) = illegal_action_policy t"
  by (simp add: award_def)


lemma policy_fold_award:
  "illegal_action_policy (fold (\<lambda>i. award i (g i)) seats0 t) = illegal_action_policy t"
  by (induction seats0 arbitrary: t) simp_all

lemma policy_pay_pot [simp]: "illegal_action_policy (pay_pot R pot t) = illegal_action_policy t"
  by (simp add: pay_pot_def policy_fold_award split: list.splits)

lemma policy_fold_pay_pot: "illegal_action_policy (fold (pay_pot R) pots t) = illegal_action_policy t"
  by (induction pots arbitrary: t) simp_all

lemma policy_showdown [simp]: "illegal_action_policy (showdown R t) = illegal_action_policy t"
  by (simp add: showdown_def Let_def refund_excess_def policy_fold_award policy_fold_pay_pot)

lemma policy_end_hand_early [simp]: "illegal_action_policy (end_hand_early t) = illegal_action_policy t"
  by (simp add: end_hand_early_def Let_def collapse_round_def split: option.splits list.splits)
















end
